theory Spec2Isabelle
  imports Main "HOL-Library.Word"
begin

section \<open>Values\<close>

text \<open>
  The values the engine handles are what \<^verbatim>\<open>json.loads\<close> produces and what the Canvas
  client returns: \<^verbatim>\<open>None\<close>, booleans, unbounded integers, floats, strings, lists and
  dicts with string keys. A float is kept as its IEEE-754 binary64 bit pattern; the code
  only tests a float for truth and compares it with \<^verbatim>\<open>True\<close>. A dict is an association
  list in insertion order (Python dicts keep it, and their keys are distinct).

  Text is a list of 8-bit characters, the UTF-8 bytes of the Python string.
  \<^verbatim>\<open>s.upper()\<close> and \<^verbatim>\<open>s.strip()\<close>, which the placeholder guard calls, follow the Unicode
  tables and belong to the library record below. \<open>py_lower\<close> is \<^verbatim>\<open>s.lower()\<close> on ASCII
  text and leaves a byte above 127 as it is.
\<close>

datatype jval =
    JNull
  | JBool bool
  | JInt int
  | JFloat "64 word"
  | JStr string
  | JArr "jval list"
  | JObj "(string \<times> jval) list"

type_synonym pydict = "(string \<times> jval) list"

text \<open>An exception that \<^verbatim>\<open>except Exception\<close> catches, with the text \<^verbatim>\<open>str(e)\<close> gives.\<close>

datatype exn =
    ValueError string
  | AttributeError string
  | KeyError string
  | TypeError string
  | OtherError string

fun exn_str :: "exn \<Rightarrow> string" where
  "exn_str (ValueError m) = m"
| "exn_str (AttributeError m) = m"
| "exn_str (KeyError m) = m"
| "exn_str (TypeError m) = m"
| "exn_str (OtherError m) = m"

text \<open>\<^verbatim>\<open>bool(v)\<close>, the test of \<^verbatim>\<open>if v\<close>, \<^verbatim>\<open>not v\<close> and \<^verbatim>\<open>a or b\<close>.\<close>

fun truthy :: "jval \<Rightarrow> bool" where
  "truthy JNull = False"
| "truthy (JBool b) = b"
| "truthy (JInt i) = (i \<noteq> 0)"
| "truthy (JFloat w) = (push_bit 1 w \<noteq> 0)"
| "truthy (JStr s) = (s \<noteq> [])"
| "truthy (JArr xs) = (xs \<noteq> [])"
| "truthy (JObj d) = (d \<noteq> [])"

text \<open>\<^verbatim>\<open>v == True\<close>: Python's \<^verbatim>\<open>True\<close> equals the integer 1 and the float 1.0.\<close>

fun eq_True :: "jval \<Rightarrow> bool" where
  "eq_True (JBool b) = b"
| "eq_True (JInt i) = (i = 1)"
| "eq_True (JFloat w) = (w = 0x3FF0000000000000)"
| "eq_True _ = False"

text \<open>The name \<^verbatim>\<open>type(v).__name__\<close> that an AttributeError message quotes.\<close>

fun type_name :: "jval \<Rightarrow> string" where
  "type_name JNull = ''NoneType''"
| "type_name (JBool _) = ''bool''"
| "type_name (JInt _) = ''int''"
| "type_name (JFloat _) = ''float''"
| "type_name (JStr _) = ''str''"
| "type_name (JArr _) = ''list''"
| "type_name (JObj _) = ''dict''"

section \<open>Python strings\<close>

definition squote :: string where
  "squote = [CHR 0x27]"

definition newline :: string where
  "newline = [CHR 0x0A]"

definition lower_char :: "char \<Rightarrow> char" where
  "lower_char c =
     (if (65::nat) \<le> of_char c \<and> of_char c \<le> (90::nat)
      then char_of (of_char c + (32::nat)) else c)"

text \<open>\<^verbatim>\<open>s.lower()\<close>.\<close>

definition py_lower :: "string \<Rightarrow> string" where
  "py_lower s = map lower_char s"

text \<open>The ASCII whitespace of \<^verbatim>\<open>c.isspace()\<close>: tab, line feed, vertical tab, form feed,
  carriage return, the four separators 0x1C to 0x1F, and the space. Every other
  whitespace character of Python is outside ASCII, so each of its bytes is above 127.\<close>

definition ascii_isspace :: "char \<Rightarrow> bool" where
  "ascii_isspace c \<longleftrightarrow>
     ((9::nat) \<le> of_char c \<and> of_char c \<le> (13::nat))
     \<or> ((28::nat) \<le> of_char c \<and> of_char c \<le> (32::nat))"

text \<open>\<^verbatim>\<open>s.startswith(p)\<close>, \<^verbatim>\<open>s.endswith(p)\<close> and \<^verbatim>\<open>sub in s\<close>.\<close>

definition startswith :: "string \<Rightarrow> string \<Rightarrow> bool" where
  "startswith s p \<longleftrightarrow> take (length p) s = p"

definition endswith :: "string \<Rightarrow> string \<Rightarrow> bool" where
  "endswith s p \<longleftrightarrow> length p \<le> length s \<and> drop (length s - length p) s = p"

fun py_in :: "string \<Rightarrow> string \<Rightarrow> bool" where
  "py_in sub [] = (sub = [])"
| "py_in sub (c # cs) = (take (length sub) (c # cs) = sub \<or> py_in sub cs)"

text \<open>\<^verbatim>\<open>sep.join(parts)\<close>.\<close>

fun py_join :: "string \<Rightarrow> string list \<Rightarrow> string" where
  "py_join sep [] = []"
| "py_join sep [x] = x"
| "py_join sep (x # y # ys) = x @ sep @ py_join sep (y # ys)"

section \<open>Python dicts\<close>

text \<open>\<^verbatim>\<open>k in d\<close>, \<^verbatim>\<open>d.get(k)\<close> (\<^verbatim>\<open>None\<close> when absent), \<^verbatim>\<open>d[k] = v\<close> (an existing key
  keeps its place, a new one goes last) and \<^verbatim>\<open>d.pop(k)\<close>.\<close>

definition dict_keys :: "pydict \<Rightarrow> string list" where
  "dict_keys d = map fst d"

definition dict_has :: "pydict \<Rightarrow> string \<Rightarrow> bool" where
  "dict_has d k \<longleftrightarrow> k \<in> set (dict_keys d)"

definition dict_get :: "pydict \<Rightarrow> string \<Rightarrow> jval" where
  "dict_get d k = (case map_of d k of None \<Rightarrow> JNull | Some v \<Rightarrow> v)"

definition dict_set :: "pydict \<Rightarrow> string \<Rightarrow> jval \<Rightarrow> pydict" where
  "dict_set d k v =
     (if dict_has d k then map (\<lambda>(k', v'). if k' = k then (k', v) else (k', v')) d
      else d @ [(k, v)])"

definition dict_pop :: "pydict \<Rightarrow> string \<Rightarrow> pydict" where
  "dict_pop d k = filter (\<lambda>(k', v'). k' \<noteq> k) d"

section \<open>The Python library\<close>

text \<open>
  The built-ins the engine calls and this development does not fix: \<^verbatim>\<open>s.upper()\<close> and
  \<^verbatim>\<open>s.strip()\<close>, which follow the Unicode tables; \<^verbatim>\<open>json.loads\<close> (its value, a
  \<^verbatim>\<open>JSONDecodeError\<close>, or any other exception, such as a RecursionError or the ValueError
  of the integer digit limit); \<^verbatim>\<open>int(s)\<close> and \<^verbatim>\<open>float(s)\<close> on a string (\<open>None\<close> is their
  ValueError); the text of a value that is not a string inside an f-string;
  \<^verbatim>\<open>json.dumps(v, indent=2)\<close>; and the exception that \<^verbatim>\<open>v[:20]\<close> raises on a value that is
  neither a list nor a string. Every definition below takes them as the record \<open>L\<close>, and
  a theorem says which of their properties it uses, if any.
\<close>

datatype loads_result = Loaded jval | JSONDecodeError | LoadsRaised exn

record pylib =
  str_upper :: "string \<Rightarrow> string"
  str_strip :: "string \<Rightarrow> string"
  json_loads :: "string \<Rightarrow> loads_result"
  py_int :: "string \<Rightarrow> int option"
  py_float :: "string \<Rightarrow> 64 word option"
  py_format :: "jval \<Rightarrow> string"
  json_dumps :: "jval \<Rightarrow> string"
  slice_error :: "jval \<Rightarrow> exn"

section \<open>The placeholder guard (app.py, detect_placeholders)\<close>

definition placeholder_patterns :: "string list" where
  "placeholder_patterns =
     [''<YOUR_'', ''<HTML_'', ''<INSERT_'', ''<COURSE_'', ''<PAGE_'', ''<MODULE_'']"

text \<open>The two tests of the loop body, on one string value: line 146 on
  \<^verbatim>\<open>value.upper()\<close>, line 150 on \<^verbatim>\<open>value.strip()\<close>.\<close>

definition has_marker :: "pylib \<Rightarrow> string \<Rightarrow> bool" where
  "has_marker L s \<longleftrightarrow> list_ex (\<lambda>pat. py_in pat (str_upper L s)) placeholder_patterns"

definition bare_tag :: "pylib \<Rightarrow> string \<Rightarrow> bool" where
  "bare_tag L s \<longleftrightarrow>
     startswith (str_strip L s) ''<'' \<and> endswith (str_strip L s) ''>''
     \<and> \<not> py_in ''</'' (str_strip L s)"

text \<open>The loop over \<^verbatim>\<open>arguments.items()\<close>: the first offending item raises ValueError,
  no offending item returns \<^verbatim>\<open>None\<close>.\<close>

fun detect_placeholders :: "pylib \<Rightarrow> pydict \<Rightarrow> exn + unit" where
  "detect_placeholders L [] = Inr ()"
| "detect_placeholders L ((key, v) # rest) =
     (case v of
        JStr s \<Rightarrow>
          if has_marker L s then
            Inl (ValueError (''Invalid placeholder value for '' @ squote @ key @ squote
                   @ '': '' @ s @ ''. Please provide an actual value.''))
          else if bare_tag L s then
            Inl (ValueError (''Placeholder detected in '' @ squote @ key @ squote
                   @ '': '' @ s))
          else detect_placeholders L rest
      | _ \<Rightarrow> detect_placeholders L rest)"

section \<open>Argument normalisation (app.py, render_chat lines 292-326)\<close>

text \<open>Lines 293-296: the sidebar's course is put in when the tool declares
  \<^verbatim>\<open>course_id\<close> and the arguments have none, or a falsy one.\<close>

definition inject_course_id :: "jval \<Rightarrow> string list \<Rightarrow> pydict \<Rightarrow> pydict" where
  "inject_course_id current_course_id expected_params arguments =
     (if truthy current_course_id \<and> ''course_id'' \<in> set expected_params then
        (if \<not> truthy (dict_get arguments ''course_id'')
         then dict_set arguments ''course_id'' current_course_id
         else arguments)
      else arguments)"

text \<open>Lines 299-308: the alias table and the single pass over it, in its order.\<close>

definition param_aliases :: "(string \<times> string) list" where
  "param_aliases =
     [(''content'', ''body''), (''subject'', ''title''),
      (''body'', ''message''), (''is_published'', ''published'')]"

fun apply_aliases :: "(string \<times> string) list \<Rightarrow> string list \<Rightarrow> pydict \<Rightarrow> pydict" where
  "apply_aliases [] expected_params arguments = arguments"
| "apply_aliases ((incoming, target) # rest) expected_params arguments =
     apply_aliases rest expected_params
       (if dict_has arguments incoming \<and> incoming \<notin> set expected_params
           \<and> target \<in> set expected_params
        then dict_set (dict_pop arguments incoming) target (dict_get arguments incoming)
        else arguments)"

text \<open>Lines 311-315: \<^verbatim>\<open>include_items\<close> is popped whenever it is present; the test of
  its value comes after the pop.\<close>

definition rewrite_include_items :: "pydict \<Rightarrow> pydict" where
  "rewrite_include_items arguments =
     (if dict_has arguments ''include_items'' then
        (let include_items_value = dict_get arguments ''include_items'';
             popped = dict_pop arguments ''include_items''
         in if eq_True include_items_value \<or> include_items_value = JStr ''true''
               \<or> include_items_value = JStr ''True'' \<or> include_items_value = JStr ''1''
            then dict_set popped ''include'' (JArr [JStr ''items''])
            else popped)
      else arguments)"

text \<open>convert_argument_types (lines 109-137). \<open>expected_type\<close> is line 117.\<close>

definition expected_type :: "pydict \<Rightarrow> string \<Rightarrow> jval" where
  "expected_type tool_props key =
     (case map_of tool_props key of
        Some (JObj p) \<Rightarrow> (case map_of p ''type'' of Some t \<Rightarrow> t | None \<Rightarrow> JStr ''string'')
      | _ \<Rightarrow> JStr ''string'')"

definition convert_value :: "pylib \<Rightarrow> jval \<Rightarrow> jval \<Rightarrow> jval" where
  "convert_value L ty v =
     (case v of
        JStr s \<Rightarrow>
          if ty = JStr ''integer'' then
            (case py_int L s of Some i \<Rightarrow> JInt i | None \<Rightarrow> v)
          else if ty = JStr ''boolean'' then
            JBool (py_lower s \<in> set [''true'', ''1'', ''yes''])
          else if ty = JStr ''number'' then
            (case py_float L s of Some x \<Rightarrow> JFloat x | None \<Rightarrow> v)
          else v
      | _ \<Rightarrow> if ty = JStr ''boolean'' then JBool (truthy v) else v)"

definition convert_argument_types :: "pylib \<Rightarrow> pydict \<Rightarrow> pydict \<Rightarrow> pydict" where
  "convert_argument_types L arguments tool_props =
     map (\<lambda>(key, v).
            if \<not> dict_has tool_props key then (key, v)
            else (key, convert_value L (expected_type tool_props key) v))
         arguments"

text \<open>Line 321: the dict comprehension that keeps the declared keys.\<close>

definition filter_args :: "string list \<Rightarrow> pydict \<Rightarrow> pydict" where
  "filter_args expected_params arguments =
     filter (\<lambda>(k, v). k \<in> set expected_params) arguments"

text \<open>Lines 292-321 in their order, for a tool whose \<^verbatim>\<open>properties\<close> are \<open>props\<close>. The
  alias table is a parameter here; the code's is \<open>param_aliases\<close>.\<close>

definition normalize_with ::
  "pylib \<Rightarrow> (string \<times> string) list \<Rightarrow> jval \<Rightarrow> pydict \<Rightarrow> pydict \<Rightarrow> pydict" where
  "normalize_with L aliases current_course_id props arguments =
     (let expected_params = dict_keys props;
          injected = inject_course_id current_course_id expected_params arguments;
          aliased = apply_aliases aliases expected_params injected;
          rewritten = rewrite_include_items aliased;
          converted = convert_argument_types L rewritten props
      in filter_args expected_params converted)"

definition normalize :: "pylib \<Rightarrow> jval \<Rightarrow> pydict \<Rightarrow> pydict \<Rightarrow> pydict" where
  "normalize L current_course_id props arguments =
     normalize_with L param_aliases current_course_id props arguments"

section \<open>Extracting a tool call from the model's reply (render_chat lines 431-461)\<close>

text \<open>\<open>found\<close> is the loop variable of that name: \<open>None\<close> until an object is accepted.\<close>

definition found_truthy :: "jval option \<Rightarrow> bool" where
  "found_truthy found = (case found of None \<Rightarrow> False | Some obj \<Rightarrow> truthy obj)"

text \<open>Line 446: a dict with the keys \<^verbatim>\<open>tool\<close> and \<^verbatim>\<open>parameters\<close>.\<close>

definition is_tool_call :: "jval \<Rightarrow> bool" where
  "is_tool_call obj =
     (case obj of JObj d \<Rightarrow> dict_has d ''tool'' \<and> dict_has d ''parameters'' | _ \<Rightarrow> False)"

text \<open>The inner loop (lines 439-448) over the end indices it has left. An exception of
  \<^verbatim>\<open>json.loads\<close> other than JSONDecodeError leaves both loops.\<close>

fun scan_ends :: "pylib \<Rightarrow> string \<Rightarrow> nat \<Rightarrow> nat list \<Rightarrow> jval option \<Rightarrow> exn + jval option" where
  "scan_ends L response_text start_idx [] found = Inr found"
| "scan_ends L response_text start_idx (end_idx # rest) found =
     (if response_text ! (end_idx - 1) = CHR ''}'' then
        (case json_loads L (take (end_idx - start_idx) (drop start_idx response_text)) of
           JSONDecodeError \<Rightarrow> scan_ends L response_text start_idx rest found
         | LoadsRaised e \<Rightarrow> Inl e
         | Loaded obj \<Rightarrow>
             if is_tool_call obj then Inr (Some obj)
             else scan_ends L response_text start_idx rest found)
      else scan_ends L response_text start_idx rest found)"

text \<open>\<^verbatim>\<open>range(text_len, start_idx, -1)\<close>.\<close>

definition end_indices :: "string \<Rightarrow> nat \<Rightarrow> nat list" where
  "end_indices response_text start_idx = rev [Suc start_idx ..< Suc (length response_text)]"

text \<open>The outer loop (lines 438-450) over the start indices it has left.\<close>

fun scan_starts :: "pylib \<Rightarrow> string \<Rightarrow> nat list \<Rightarrow> jval option \<Rightarrow> exn + jval option" where
  "scan_starts L response_text [] found = Inr found"
| "scan_starts L response_text (start_idx # rest) found =
     (case scan_ends L response_text start_idx (end_indices response_text start_idx) found of
        Inl e \<Rightarrow> Inl e
      | Inr found' \<Rightarrow>
          if found_truthy found' then Inr found'
          else scan_starts L response_text rest found')"

text \<open>Line 438: the indices of the opening braces.\<close>

definition start_indices :: "string \<Rightarrow> nat list" where
  "start_indices response_text =
     filter (\<lambda>i. response_text ! i = CHR ''{'') [0 ..< length response_text]"

text \<open>\<^verbatim>\<open>obj[key]\<close> for a string key.\<close>

definition subscript :: "jval \<Rightarrow> string \<Rightarrow> exn + jval" where
  "subscript obj key =
     (case obj of
        JObj d \<Rightarrow> (case map_of d key of Some v \<Rightarrow> Inr v | None \<Rightarrow> Inl (KeyError (squote @ key @ squote)))
      | _ \<Rightarrow> Inl (TypeError (type_name obj)))"

definition fmt :: "pylib \<Rightarrow> jval \<Rightarrow> string" where
  "fmt L v = (case v of JStr s \<Rightarrow> s | _ \<Rightarrow> py_format L v)"

definition proposal_text :: "pylib \<Rightarrow> jval \<Rightarrow> jval \<Rightarrow> string" where
  "proposal_text L tool_nm parameters =
     ''I want to call '' @ squote @ fmt L tool_nm @ squote @ '' with these parameters:''
     @ newline @ newline @ json_dumps L parameters @ newline @ newline
     @ ''Do you want to proceed? (yes/no)''"

text \<open>Lines 431-461: the pending confirmation (function name, arguments) if a call was
  found, and the response text. \<^verbatim>\<open>except Exception\<close> of line 460 only prints.\<close>

definition parse_tool_call :: "pylib \<Rightarrow> string \<Rightarrow> (jval \<times> jval) option \<times> string" where
  "parse_tool_call L response_text =
     (if py_in ''{'' response_text \<and> py_in ''tool'' response_text then
        (case scan_starts L response_text (start_indices response_text) None of
           Inl e \<Rightarrow> (None, response_text)
         | Inr found \<Rightarrow>
             if found_truthy found then
               (case found of
                  Some tool_call \<Rightarrow>
                    (case subscript tool_call ''tool'' of
                       Inl e \<Rightarrow> (None, response_text)
                     | Inr tool_nm \<Rightarrow>
                         (case subscript tool_call ''parameters'' of
                            Inl e \<Rightarrow> (None, response_text)
                          | Inr parameters \<Rightarrow>
                              (Some (tool_nm, parameters), proposal_text L tool_nm parameters)))
                | None \<Rightarrow> (None, response_text))
             else (None, response_text))
      else (None, response_text))"

section \<open>The session (app.py, initialize_session)\<close>

text \<open>
  A tool of \<^verbatim>\<open>available_tools\<close> is the dict convert_tools.py builds: its name, its
  description, its parameter schema and the bound method of the Canvas client, which
  returns the decoded response or raises. A message is its role and its content. The
  session holds the history, the pending confirmation (\<open>None\<close>, or the function name and
  the arguments of the proposed call), the sidebar's course, the tools, the
  \<^verbatim>\<open>chat\<close> method of the Groq service and the \<^verbatim>\<open>list_courses\<close> method of the Canvas
  client, as a function of its keyword arguments.
\<close>

record tool =
  tool_name :: string
  tool_description :: string
  tool_parameters :: jval
  tool_function :: "pydict \<Rightarrow> exn + jval"

type_synonym message = "string \<times> string"

text \<open>One call of a method of the Canvas client: its name and its keyword arguments.\<close>

type_synonym call = "string \<times> pydict"

record session_state =
  messages :: "message list"
  pending_confirmation :: "(jval \<times> jval) option"
  current_course_id :: jval
  available_tools :: "tool list"
  groq_chat :: "message list \<Rightarrow> tool list \<Rightarrow> string"
  canvas_list_courses :: "pydict \<Rightarrow> exn + jval"

text \<open>The symbols of the user-visible texts, as their UTF-8 bytes: the cross mark, the
  check mark, the warning sign and the ellipsis.\<close>

definition cross_mark :: string where
  "cross_mark = [CHR 0xE2, CHR 0x9D, CHR 0x8C]"

definition check_mark :: string where
  "check_mark = [CHR 0xE2, CHR 0x9C, CHR 0x85]"

definition warning_sign :: string where
  "warning_sign = [CHR 0xE2, CHR 0x9A, CHR 0xA0, CHR 0xEF, CHR 0xB8, CHR 0x8F]"

definition ellipsis :: string where
  "ellipsis = [CHR 0xE2, CHR 0x80, CHR 0xA6]"

section \<open>Rendering a result (render_chat lines 343-359 and 477-489)\<close>

text \<open>\<^verbatim>\<open>a or b\<close>.\<close>

definition py_or :: "jval \<Rightarrow> jval \<Rightarrow> jval" where
  "py_or a b = (if truthy a then a else b)"

text \<open>The line of one item of a list result (lines 350-355 and 480-485).\<close>

definition item_line :: "pylib \<Rightarrow> jval \<Rightarrow> string" where
  "item_line L item =
     (case item of
        JObj d \<Rightarrow>
          (let name = py_or (py_or (py_or (dict_get d ''name'') (dict_get d ''title''))
                         (dict_get d ''short_name'')) (JStr ''Unnamed'');
               cid = py_or (py_or (dict_get d ''id'') (dict_get d ''course_id''))
                        (dict_get d ''uuid'')
           in ''- '' @ fmt L name @ '' (ID: '' @ fmt L cid @ '')'')
      | _ \<Rightarrow> ''- '' @ fmt L item)"

definition render_result :: "pylib \<Rightarrow> jval \<Rightarrow> string" where
  "render_result L result =
     (case result of
        JArr xs \<Rightarrow>
          if xs = [] then
            ''No results returned. If you expected courses, check enrollment type/state ''
            @ ''(e.g., try enrollment_type='' @ squote @ ''teacher'' @ squote
            @ '', enrollment_state='' @ squote @ ''active'' @ squote @ '').''
          else
            check_mark @ '' Operation completed successfully!'' @ newline @ newline
            @ py_join newline (map (item_line L) (take 20 xs))
            @ (if length xs > 20 then newline @ ellipsis else [])
      | _ \<Rightarrow>
          check_mark @ '' Operation completed successfully!'' @ newline @ newline
          @ fmt L result)"

text \<open>Lines 477-489, inside the \<^verbatim>\<open>try\<close> of the fallback: \<^verbatim>\<open>result[:20]\<close> is a slice of a
  list or of a string (whose items are its characters) and raises on anything else.\<close>

definition render_courses :: "pylib \<Rightarrow> jval \<Rightarrow> exn + string" where
  "render_courses L result =
     (if truthy result then
        (case result of
           JArr xs \<Rightarrow>
             Inr (check_mark @ '' Courses:'' @ newline @ newline
                  @ py_join newline (map (item_line L) (take 20 xs))
                  @ (if length xs > 20 then newline @ ellipsis else []))
         | JStr s \<Rightarrow>
             Inr (check_mark @ '' Courses:'' @ newline @ newline
                  @ py_join newline (map (\<lambda>c. ''- '' @ [c]) (take 20 s))
                  @ (if length s > 20 then newline @ ellipsis else []))
         | _ \<Rightarrow> Inl (slice_error L result))
      else
        Inr ''No courses found for your teacher enrollments. Try changing enrollment_type/state.'')"

section \<open>Executing a confirmed call (render_chat lines 261-382)\<close>

text \<open>Lines 285-286: the \<^verbatim>\<open>properties\<close> of the tool's schema.\<close>

definition tool_props :: "tool \<Rightarrow> jval" where
  "tool_props t =
     (case tool_parameters t of
        JObj params \<Rightarrow> (case map_of params ''properties'' of Some p \<Rightarrow> p | None \<Rightarrow> JObj [])
      | _ \<Rightarrow> JObj [])"

text \<open>The AttributeError of \<^verbatim>\<open>v.keys()\<close> on a value that is not a dict (lines 287, 288).\<close>

definition no_keys_error :: "jval \<Rightarrow> exn" where
  "no_keys_error v =
     AttributeError (squote @ type_name v @ squote @ '' object has no attribute ''
                     @ squote @ ''keys'' @ squote)"

definition valid_events :: "string list" where
  "valid_events = [''offer'', ''claim'', ''conclude'', ''delete'', ''undelete'']"

definition invalid_event_text :: "pylib \<Rightarrow> jval \<Rightarrow> string" where
  "invalid_event_text L ev =
     cross_mark @ '' Invalid event '' @ squote @ fmt L ev @ squote
     @ '' for update_course. Valid events: '' @ py_join '', '' valid_events"

text \<open>The body of the loop for the tool whose name matches (lines 283-360): the response
  text or the exception it raises, and the calls it made. The tool's function is called
  at line 339 only.\<close>

definition run_tool ::
  "pylib \<Rightarrow> jval \<Rightarrow> tool \<Rightarrow> jval \<Rightarrow> jval \<Rightarrow> (exn + string) \<times> call list" where
  "run_tool L course t function_name arguments =
     (case tool_props t of
        JObj props \<Rightarrow>
          (case arguments of
             JObj args \<Rightarrow>
               (let filtered_args = normalize L course props args in
                case detect_placeholders L filtered_args of
                  Inl e \<Rightarrow> (Inl e, [])
                | Inr u \<Rightarrow>
                    if function_name = JStr ''update_course'' \<and> dict_has filtered_args ''event''
                       \<and> dict_get filtered_args ''event'' \<notin> set (map JStr valid_events)
                    then (Inr (invalid_event_text L (dict_get filtered_args ''event'')), [])
                    else
                      (case tool_function t filtered_args of
                         Inl e \<Rightarrow> (Inl e, [(tool_name t, filtered_args)])
                       | Inr result \<Rightarrow>
                           (Inr (render_result L result), [(tool_name t, filtered_args)])))
           | _ \<Rightarrow> (Inl (no_keys_error arguments), []))
      | _ \<Rightarrow> (Inl (no_keys_error (tool_props t)), []))"

text \<open>The \<^verbatim>\<open>for ... else\<close> of lines 281-363: the first tool of that name runs and the
  loop breaks.\<close>

fun find_and_execute ::
  "pylib \<Rightarrow> jval \<Rightarrow> tool list \<Rightarrow> jval \<Rightarrow> jval \<Rightarrow> (exn + string) \<times> call list" where
  "find_and_execute L course [] function_name arguments =
     (Inr (cross_mark @ '' Tool '' @ squote @ fmt L function_name @ squote @ '' not found.''), [])"
| "find_and_execute L course (t # rest) function_name arguments =
     (if JStr (tool_name t) = function_name then run_tool L course t function_name arguments
      else find_and_execute L course rest function_name arguments)"

definition invalid_tool_text :: "pylib \<Rightarrow> jval \<Rightarrow> string list \<Rightarrow> string" where
  "invalid_tool_text L function_name tool_names =
     cross_mark @ '' Invalid tool '' @ squote @ fmt L function_name @ squote
     @ ''. Available tools: '' @ py_join '', '' (take 10 tool_names) @ ''...''"

text \<open>The branch of an affirmation (lines 252-382). \<^verbatim>\<open>st.rerun()\<close> at line 278 ends the
  run: Streamlit's rerun exception is not an \<^verbatim>\<open>Exception\<close>, so line 370 does not catch
  it.\<close>

definition confirm_turn ::
  "pylib \<Rightarrow> session_state \<Rightarrow> string \<Rightarrow> jval \<Rightarrow> jval \<Rightarrow> session_state \<times> call list" where
  "confirm_turn L st prompt function_name arguments =
     (let msgs = messages st @ [(''user'', prompt)];
          tool_names = map tool_name (available_tools st)
      in if function_name \<notin> set (map JStr tool_names) then
           (st\<lparr>messages := msgs @ [(''assistant'', invalid_tool_text L function_name tool_names)],
               pending_confirmation := None\<rparr>, [])
         else
           (case find_and_execute L (current_course_id st) (available_tools st)
                   function_name arguments of
              (Inr response_text, calls) \<Rightarrow>
                (st\<lparr>messages := msgs @ [(''assistant'', response_text)],
                    pending_confirmation := None\<rparr>, calls)
            | (Inl e, calls) \<Rightarrow>
                (st\<lparr>messages := msgs @ [(''assistant'', cross_mark @ '' Error: '' @ exn_str e)],
                    pending_confirmation := None\<rparr>, calls)))"

text \<open>The branch of a rejection (lines 384-402).\<close>

definition cancel_turn :: "session_state \<Rightarrow> string \<Rightarrow> session_state \<times> call list" where
  "cancel_turn st prompt =
     (st\<lparr>messages := messages st @ [(''user'', prompt),
            (''assistant'', check_mark @ '' Operation cancelled. No changes were made.'')],
         pending_confirmation := None\<rparr>, [])"

section \<open>An ordinary message (render_chat lines 408-509)\<close>

definition action_phrases :: "string list" where
  "action_phrases =
     [''has been'', ''successfully'', ''created'', ''updated'', ''added'', ''deleted'',
      ''i have'', ''i will'', ''i'' @ squote @ ''ve'']"

text \<open>Lines 464-468.\<close>

definition hallucination_note :: "string \<Rightarrow> bool \<Rightarrow> string \<Rightarrow> string" where
  "hallucination_note prompt tool_call_found response_text =
     (if \<not> tool_call_found
         \<and> list_ex (\<lambda>phrase. py_in phrase (py_lower response_text)) action_phrases then
        (if py_in ''course'' (py_lower prompt) \<or> py_in ''page'' (py_lower prompt)
            \<or> py_in ''module'' (py_lower prompt) \<or> py_in ''announcement'' (py_lower prompt)
         then response_text @ newline @ newline @ warning_sign
              @ '' Note: No Canvas action was executed because no tool call was issued. ''
              @ ''Please provide a clear request so I can call the correct tool.''
         else response_text)
      else response_text)"

text \<open>Lines 471-491: the keyword arguments of the fallback call, the response text
  after the fallback, and the call it made.\<close>

definition fallback_kwargs :: pydict where
  "fallback_kwargs =
     [(''enrollment_type'', JStr ''teacher''), (''enrollment_state'', JStr ''active'')]"

text \<open>The response text of lines 472-491, from what the call returned or raised.\<close>

definition fallback_text :: "pylib \<Rightarrow> exn + jval \<Rightarrow> string" where
  "fallback_text L outcome =
     (case outcome of
        Inl e \<Rightarrow> cross_mark @ '' Error listing courses: '' @ exn_str e
      | Inr result \<Rightarrow>
          (case render_courses L result of
             Inl e \<Rightarrow> cross_mark @ '' Error listing courses: '' @ exn_str e
           | Inr t \<Rightarrow> t))"

definition list_courses_fallback ::
  "pylib \<Rightarrow> session_state \<Rightarrow> string \<Rightarrow> (jval \<times> jval) option \<Rightarrow> string \<Rightarrow> string \<times> call list" where
  "list_courses_fallback L st prompt pending response_text =
     (if pending = None \<and> py_in ''list'' (py_lower prompt) \<and> py_in ''course'' (py_lower prompt)
      then (fallback_text L (canvas_list_courses st fallback_kwargs),
            [(''list_courses'', fallback_kwargs)])
      else (response_text, []))"

text \<open>\<^verbatim>\<open>messages[-10:]\<close>.\<close>

definition last10 :: "message list \<Rightarrow> message list" where
  "last10 ms = drop (length ms - 10) ms"

definition normal_turn :: "pylib \<Rightarrow> session_state \<Rightarrow> string \<Rightarrow> session_state \<times> call list" where
  "normal_turn L st prompt =
     (let msgs = messages st @ [(''user'', prompt)];
          reply = groq_chat st (last10 msgs) (available_tools st);
          (pending, text1) = parse_tool_call L reply;
          text2 = hallucination_note prompt (pending \<noteq> None) text1;
          (text3, calls) = list_courses_fallback L st prompt pending text2;
          st' = st\<lparr>messages := msgs @ [(''assistant'', text3)]\<rparr>
      in (case pending of
            Some p \<Rightarrow> (st'\<lparr>pending_confirmation := Some p\<rparr>, calls)
          | None \<Rightarrow> (st', calls)))"

section \<open>One operator turn (render_chat lines 249-511)\<close>

definition affirmations :: "string list" where
  "affirmations = [''yes'', ''y'', ''confirm'', ''ok'']"

definition rejections :: "string list" where
  "rejections = [''no'', ''n'', ''cancel'']"

text \<open>The new session and the calls made to the Canvas client. An empty prompt is no
  input (line 249). The last branch of a pending confirmation (lines 403-406) only shows
  a warning.\<close>

definition render_chat :: "pylib \<Rightarrow> session_state \<Rightarrow> string \<Rightarrow> session_state \<times> call list" where
  "render_chat L st prompt =
     (if prompt = [] then (st, [])
      else
        (case pending_confirmation st of
           Some (function_name, arguments) \<Rightarrow>
             if py_lower prompt \<in> set affirmations then
               confirm_turn L st prompt function_name arguments
             else if py_lower prompt \<in> set rejections then cancel_turn st prompt
             else (st, [])
         | None \<Rightarrow> normal_turn L st prompt))"

section \<open>A library for the examples\<close>

text \<open>
  The theorems below hold for every library record. Their examples need one: this
  section gives a reader for JSON text that follows Python's \<^verbatim>\<open>json.loads\<close> (the grammar
  of its scanner: objects, arrays, strings with their escapes, numbers, \<^verbatim>\<open>true\<close>,
  \<^verbatim>\<open>false\<close>, \<^verbatim>\<open>null\<close>, \<^verbatim>\<open>NaN\<close>, \<^verbatim>\<open>Infinity\<close> and \<^verbatim>\<open>-Infinity\<close>; a repeated key keeps
  its first place and its last value), with the conversion of a float literal left to
  its \<^verbatim>\<open>parse_float\<close> hook, Python's \<^verbatim>\<open>int\<close> on ASCII decimal text, and \<^verbatim>\<open>upper\<close> and
  \<^verbatim>\<open>strip\<close> on ASCII text. Text is read as UTF-8 bytes, so a \<^verbatim>\<open>\u\<close> escape becomes the
  bytes of its code point.
\<close>

datatype tok =
    TLBrace | TRBrace | TLBracket | TRBracket | TColon | TComma
  | TStr string
  | TVal jval
  | TFloat string

definition is_digit :: "char \<Rightarrow> bool" where
  "is_digit c \<longleftrightarrow> (48::nat) \<le> of_char c \<and> of_char c \<le> (57::nat)"

definition digit_val :: "char \<Rightarrow> nat" where
  "digit_val c = of_char c - 48"

definition hex_val :: "char \<Rightarrow> nat option" where
  "hex_val c =
     (let n = (of_char c :: nat) in
      if 48 \<le> n \<and> n \<le> 57 then Some (n - 48)
      else if 97 \<le> n \<and> n \<le> 102 then Some (n - 87)
      else if 65 \<le> n \<and> n \<le> 70 then Some (n - 55)
      else None)"

text \<open>The value of a string of decimal digits.\<close>

definition dec_val :: "string \<Rightarrow> nat" where
  "dec_val ds = foldl (\<lambda>acc c. 10 * acc + digit_val c) 0 ds"

text \<open>The UTF-8 bytes of a code point (a lone surrogate takes the three-byte form).\<close>

definition utf8 :: "nat \<Rightarrow> string" where
  "utf8 n =
     (if n < 0x80 then [char_of n]
      else if n < 0x800 then [char_of (0xC0 + n div 64), char_of (0x80 + n mod 64)]
      else if n < 0x10000 then
        [char_of (0xE0 + n div 4096), char_of (0x80 + (n div 64) mod 64),
         char_of (0x80 + n mod 64)]
      else
        [char_of (0xF0 + n div 262144), char_of (0x80 + (n div 4096) mod 64),
         char_of (0x80 + (n div 64) mod 64), char_of (0x80 + n mod 64)])"

text \<open>Where the reader is inside a number: after the sign, after a leading zero, inside
  the integer part, after the point, inside the fraction, after the exponent mark, after
  the exponent's sign, inside the exponent.\<close>

datatype numstate = NSign | NZero | NInt | NDot | NFrac | NExpMark | NExpSign | NExp

text \<open>The state of the lexer: between tokens; inside a string (with its bytes so far);
  after a backslash; inside the four hex digits of a \<^verbatim>\<open>\u\<close> escape (digits left, value
  so far); the same three after a high surrogate, which waits for its low one; inside a
  number (its text so far); inside a literal (the characters it still needs).\<close>

datatype lstate =
    LMain
  | LString string
  | LEscape string
  | LUnicode string nat nat
  | LHigh string nat
  | LHighEscape string nat
  | LHighUnicode string nat nat nat
  | LNumber string numstate
  | LLiteral string tok

definition is_high_surrogate :: "nat \<Rightarrow> bool" where
  "is_high_surrogate n \<longleftrightarrow> 0xD800 \<le> n \<and> n \<le> 0xDBFF"

definition is_low_surrogate :: "nat \<Rightarrow> bool" where
  "is_low_surrogate n \<longleftrightarrow> 0xDC00 \<le> n \<and> n \<le> 0xDFFF"

text \<open>The token of a finished number: an integer without fraction and exponent, a
  float literal otherwise; none where the number is cut short.\<close>

definition number_tok :: "string \<Rightarrow> numstate \<Rightarrow> tok option" where
  "number_tok txt ns =
     (case ns of
        NZero \<Rightarrow> Some (TVal (JInt 0))
      | NInt \<Rightarrow>
          Some (TVal (JInt (if hd txt = CHR ''-'' then - int (dec_val (tl txt))
                            else int (dec_val txt))))
      | NFrac \<Rightarrow> Some (TFloat txt)
      | NExp \<Rightarrow> Some (TFloat txt)
      | _ \<Rightarrow> None)"

text \<open>A character between tokens.\<close>

definition main_step :: "char \<Rightarrow> (lstate \<times> tok list) option" where
  "main_step c =
     (if c = CHR '' '' \<or> c = CHR 0x09 \<or> c = CHR 0x0A \<or> c = CHR 0x0D then Some (LMain, [])
      else if c = CHR ''{'' then Some (LMain, [TLBrace])
      else if c = CHR ''}'' then Some (LMain, [TRBrace])
      else if c = CHR ''['' then Some (LMain, [TLBracket])
      else if c = CHR '']'' then Some (LMain, [TRBracket])
      else if c = CHR '':'' then Some (LMain, [TColon])
      else if c = CHR '','' then Some (LMain, [TComma])
      else if c = CHR 0x22 then Some (LString [], [])
      else if c = CHR ''-'' then Some (LNumber [c] NSign, [])
      else if c = CHR ''0'' then Some (LNumber [c] NZero, [])
      else if is_digit c then Some (LNumber [c] NInt, [])
      else if c = CHR ''t'' then Some (LLiteral ''rue'' (TVal (JBool True)), [])
      else if c = CHR ''f'' then Some (LLiteral ''alse'' (TVal (JBool False)), [])
      else if c = CHR ''n'' then Some (LLiteral ''ull'' (TVal JNull), [])
      else if c = CHR ''N'' then Some (LLiteral ''aN'' (TVal (JFloat 0x7FF8000000000000)), [])
      else if c = CHR ''I'' then
        Some (LLiteral ''nfinity'' (TVal (JFloat 0x7FF0000000000000)), [])
      else None)"

text \<open>A finished escape of code point \<open>n\<close> inside a string.\<close>

definition after_unicode :: "string \<Rightarrow> nat \<Rightarrow> lstate" where
  "after_unicode acc n = (if is_high_surrogate n then LHigh acc n else LString (acc @ utf8 n))"

definition escape_char :: "char \<Rightarrow> char option" where
  "escape_char c =
     (if c = CHR 0x22 \<or> c = CHR 0x5C \<or> c = CHR ''/'' then Some c
      else if c = CHR ''b'' then Some (CHR 0x08)
      else if c = CHR ''f'' then Some (CHR 0x0C)
      else if c = CHR ''n'' then Some (CHR 0x0A)
      else if c = CHR ''r'' then Some (CHR 0x0D)
      else if c = CHR ''t'' then Some (CHR 0x09)
      else None)"

text \<open>A character inside a string, outside an escape.\<close>

definition string_step :: "string \<Rightarrow> char \<Rightarrow> (lstate \<times> tok list) option" where
  "string_step acc c =
     (if c = CHR 0x22 then Some (LMain, [TStr acc])
      else if c = CHR 0x5C then Some (LEscape acc, [])
      else if (of_char c :: nat) < 0x20 then None
      else Some (LString (acc @ [c]), []))"

text \<open>A character after a backslash.\<close>

definition escape_step :: "string \<Rightarrow> char \<Rightarrow> (lstate \<times> tok list) option" where
  "escape_step acc c =
     (if c = CHR ''u'' then Some (LUnicode acc 4 0, [])
      else (case escape_char c of None \<Rightarrow> None | Some e \<Rightarrow> Some (LString (acc @ [e]), [])))"

text \<open>A character inside a number: it goes on, or the number ends before it.\<close>

definition number_step :: "string \<Rightarrow> numstate \<Rightarrow> char \<Rightarrow> (lstate \<times> tok list) option" where
  "number_step txt ns c =
     (let go = (\<lambda>ns'. Some (LNumber (txt @ [c]) ns', []));
          stop = (case number_tok txt ns of
                    None \<Rightarrow> None
                  | Some t \<Rightarrow> (case main_step c of None \<Rightarrow> None
                               | Some (st, ts) \<Rightarrow> Some (st, t # ts)))
      in case ns of
           NSign \<Rightarrow>
             if c = CHR ''0'' then go NZero
             else if is_digit c then go NInt
             else if c = CHR ''I'' then
               Some (LLiteral ''nfinity'' (TVal (JFloat 0xFFF0000000000000)), [])
             else None
         | NZero \<Rightarrow>
             if c = CHR ''.'' then go NDot
             else if c = CHR ''e'' \<or> c = CHR ''E'' then go NExpMark
             else stop
         | NInt \<Rightarrow>
             if is_digit c then go NInt
             else if c = CHR ''.'' then go NDot
             else if c = CHR ''e'' \<or> c = CHR ''E'' then go NExpMark
             else stop
         | NDot \<Rightarrow> if is_digit c then go NFrac else None
         | NFrac \<Rightarrow>
             if is_digit c then go NFrac
             else if c = CHR ''e'' \<or> c = CHR ''E'' then go NExpMark
             else stop
         | NExpMark \<Rightarrow>
             if is_digit c then go NExp
             else if c = CHR ''+'' \<or> c = CHR ''-'' then go NExpSign
             else None
         | NExpSign \<Rightarrow> if is_digit c then go NExp else None
         | NExp \<Rightarrow> if is_digit c then go NExp else stop)"

text \<open>One character of the text.\<close>

definition lex_step :: "lstate \<Rightarrow> char \<Rightarrow> (lstate \<times> tok list) option" where
  "lex_step st c =
     (case st of
        LMain \<Rightarrow> main_step c
      | LString acc \<Rightarrow> string_step acc c
      | LEscape acc \<Rightarrow> escape_step acc c
      | LUnicode acc k n \<Rightarrow>
          (case hex_val c of
             None \<Rightarrow> None
           | Some h \<Rightarrow>
               if k = 1 then Some (after_unicode acc (16 * n + h), [])
               else Some (LUnicode acc (k - 1) (16 * n + h), []))
      | LHigh acc hi \<Rightarrow>
          if c = CHR 0x5C then Some (LHighEscape acc hi, [])
          else string_step (acc @ utf8 hi) c
      | LHighEscape acc hi \<Rightarrow>
          if c = CHR ''u'' then Some (LHighUnicode acc hi 4 0, [])
          else escape_step (acc @ utf8 hi) c
      | LHighUnicode acc hi k n \<Rightarrow>
          (case hex_val c of
             None \<Rightarrow> None
           | Some h \<Rightarrow>
               if k = 1 then
                 (let lo = 16 * n + h in
                  if is_low_surrogate lo then
                    Some (LString (acc @ utf8 (0x10000 + (hi - 0xD800) * 1024 + (lo - 0xDC00))), [])
                  else Some (after_unicode (acc @ utf8 hi) lo, []))
               else Some (LHighUnicode acc hi (k - 1) (16 * n + h), []))
      | LNumber txt ns \<Rightarrow> number_step txt ns c
      | LLiteral need t \<Rightarrow>
          (case need of
             [] \<Rightarrow> None
           | x # xs \<Rightarrow>
               if c = x then (if xs = [] then Some (LMain, [t]) else Some (LLiteral xs t, []))
               else None))"

text \<open>The tokens of a text, or none where it has no reading.\<close>

fun lex :: "lstate \<Rightarrow> string \<Rightarrow> tok list option" where
  "lex st [] =
     (case st of
        LMain \<Rightarrow> Some []
      | LNumber txt ns \<Rightarrow> (case number_tok txt ns of None \<Rightarrow> None | Some t \<Rightarrow> Some [t])
      | _ \<Rightarrow> None)"
| "lex st (c # cs) =
     (case lex_step st c of
        None \<Rightarrow> None
      | Some (st', ts) \<Rightarrow> (case lex st' cs of None \<Rightarrow> None | Some rest \<Rightarrow> Some (ts @ rest)))"

text \<open>The parser keeps the open arrays and objects on a stack: an array with its items
  so far (last first), an object with its items so far and the key that waits for its
  value.\<close>

datatype frame = FArr "jval list" | FObj pydict string

datatype pstate =
    PValue | PArrStart | PObjStart | PKey | PColon | PAfter | PDone jval

text \<open>A finished value goes to the innermost open array or object, or is the result.\<close>

definition push_value :: "jval \<Rightarrow> frame list \<Rightarrow> pstate \<times> frame list" where
  "push_value v stk =
     (case stk of
        [] \<Rightarrow> (PDone v, [])
      | FArr xs # r \<Rightarrow> (PAfter, FArr (v # xs) # r)
      | FObj d key # r \<Rightarrow> (PAfter, FObj (dict_set d key v) key # r))"

definition value_start ::
  "(string \<Rightarrow> 64 word option) \<Rightarrow> frame list \<Rightarrow> tok \<Rightarrow> (exn + pstate \<times> frame list) option" where
  "value_start parse_float stk t =
     (case t of
        TStr s \<Rightarrow> Some (Inr (push_value (JStr s) stk))
      | TVal v \<Rightarrow> Some (Inr (push_value v stk))
      | TFloat txt \<Rightarrow>
          (case parse_float txt of
             None \<Rightarrow> Some (Inl (ValueError (''could not convert string to float: '' @ txt)))
           | Some w \<Rightarrow> Some (Inr (push_value (JFloat w) stk)))
      | TLBracket \<Rightarrow> Some (Inr (PArrStart, FArr [] # stk))
      | TLBrace \<Rightarrow> Some (Inr (PObjStart, FObj [] [] # stk))
      | _ \<Rightarrow> None)"

text \<open>One token: \<open>None\<close> is a JSONDecodeError, \<open>Inl\<close> the exception of the hook.\<close>

definition parse_step ::
  "(string \<Rightarrow> 64 word option) \<Rightarrow> pstate \<Rightarrow> frame list \<Rightarrow> tok
     \<Rightarrow> (exn + pstate \<times> frame list) option" where
  "parse_step parse_float st stk t =
     (case st of
        PValue \<Rightarrow> value_start parse_float stk t
      | PArrStart \<Rightarrow>
          (case (t, stk) of
             (TRBracket, FArr xs # r) \<Rightarrow> Some (Inr (push_value (JArr (rev xs)) r))
           | _ \<Rightarrow> value_start parse_float stk t)
      | PObjStart \<Rightarrow>
          (case (t, stk) of
             (TRBrace, FObj d key # r) \<Rightarrow> Some (Inr (push_value (JObj d) r))
           | (TStr k, FObj d key # r) \<Rightarrow> Some (Inr (PColon, FObj d k # r))
           | _ \<Rightarrow> None)
      | PKey \<Rightarrow>
          (case (t, stk) of
             (TStr k, FObj d key # r) \<Rightarrow> Some (Inr (PColon, FObj d k # r))
           | _ \<Rightarrow> None)
      | PColon \<Rightarrow> (case t of TColon \<Rightarrow> Some (Inr (PValue, stk)) | _ \<Rightarrow> None)
      | PAfter \<Rightarrow>
          (case (t, stk) of
             (TComma, FArr xs # r) \<Rightarrow> Some (Inr (PValue, stk))
           | (TRBracket, FArr xs # r) \<Rightarrow> Some (Inr (push_value (JArr (rev xs)) r))
           | (TComma, FObj d key # r) \<Rightarrow> Some (Inr (PKey, stk))
           | (TRBrace, FObj d key # r) \<Rightarrow> Some (Inr (push_value (JObj d) r))
           | _ \<Rightarrow> None)
      | PDone v \<Rightarrow> None)"

fun parse_toks ::
  "(string \<Rightarrow> 64 word option) \<Rightarrow> pstate \<Rightarrow> frame list \<Rightarrow> tok list \<Rightarrow> loads_result" where
  "parse_toks parse_float st stk [] = (case st of PDone v \<Rightarrow> Loaded v | _ \<Rightarrow> JSONDecodeError)"
| "parse_toks parse_float st stk (t # ts) =
     (case parse_step parse_float st stk t of
        None \<Rightarrow> JSONDecodeError
      | Some (Inl e) \<Rightarrow> LoadsRaised e
      | Some (Inr (st', stk')) \<Rightarrow> parse_toks parse_float st' stk' ts)"

text \<open>\<^verbatim>\<open>json.loads(text, parse_float=...)\<close>.\<close>

definition json_decode :: "(string \<Rightarrow> 64 word option) \<Rightarrow> string \<Rightarrow> loads_result" where
  "json_decode parse_float text =
     (case lex LMain text of
        None \<Rightarrow> JSONDecodeError
      | Some ts \<Rightarrow> parse_toks parse_float PValue [] ts)"

text \<open>\<^verbatim>\<open>int(s)\<close> on ASCII text: blanks around (tab, line feed, vertical tab, form feed,
  carriage return and space), a sign, and decimal digits with single underscores between
  them.\<close>

definition int_blank :: "char \<Rightarrow> bool" where
  "int_blank c \<longleftrightarrow> ((9::nat) \<le> of_char c \<and> of_char c \<le> (13::nat)) \<or> c = CHR '' ''"

fun digits_ok :: "bool \<Rightarrow> string \<Rightarrow> bool" where
  "digits_ok after_digit [] = after_digit"
| "digits_ok after_digit (c # cs) =
     (if is_digit c then digits_ok True cs
      else if c = CHR ''_'' then after_digit \<and> cs \<noteq> [] \<and> is_digit (hd cs) \<and> digits_ok False cs
      else False)"

definition int_of_str :: "string \<Rightarrow> int option" where
  "int_of_str s =
     (let t = rev (dropWhile int_blank (rev (dropWhile int_blank s)));
          neg = (t \<noteq> [] \<and> hd t = CHR ''-'');
          body = (if t \<noteq> [] \<and> (hd t = CHR ''-'' \<or> hd t = CHR ''+'') then tl t else t)
      in if digits_ok False body then
           Some ((if neg then - 1 else 1) * int (dec_val (filter is_digit body)))
         else None)"

text \<open>\<^verbatim>\<open>s.upper()\<close> and \<^verbatim>\<open>s.strip()\<close> on ASCII text.\<close>

definition ascii_upper :: "string \<Rightarrow> string" where
  "ascii_upper s =
     map (\<lambda>c. if (97::nat) \<le> of_char c \<and> of_char c \<le> (122::nat)
               then char_of (of_char c - (32::nat)) else c) s"

definition ascii_strip :: "string \<Rightarrow> string" where
  "ascii_strip s = rev (dropWhile ascii_isspace (rev (dropWhile ascii_isspace s)))"

text \<open>The text of a value inside an f-string, for \<^verbatim>\<open>None\<close>, booleans, integers and
  strings.\<close>

fun dec_str :: "nat \<Rightarrow> string" where
  "dec_str n = (if n < 10 then [char_of (48 + n)] else dec_str (n div 10) @ [char_of (48 + n mod 10)])"

definition format_scalar :: "jval \<Rightarrow> string" where
  "format_scalar v =
     (case v of
        JNull \<Rightarrow> ''None''
      | JBool b \<Rightarrow> (if b then ''True'' else ''False'')
      | JInt i \<Rightarrow> (if i < 0 then ''-'' @ dec_str (nat (- i)) else dec_str (nat i))
      | JStr s \<Rightarrow> s
      | _ \<Rightarrow> ''...'')"

text \<open>The library of the examples. Its \<^verbatim>\<open>upper\<close> and \<^verbatim>\<open>strip\<close> are Python's on ASCII
  text and every example is ASCII text. Its \<^verbatim>\<open>float\<close> accepts no string, and its texts of
  floats, lists and dicts and its \<^verbatim>\<open>json.dumps\<close> are fixed: no example below depends on
  them.\<close>

definition example_lib :: pylib where
  "example_lib =
     \<lparr> str_upper = ascii_upper,
       str_strip = ascii_strip,
       json_loads = json_decode (\<lambda>s. None),
       py_int = int_of_str,
       py_float = (\<lambda>s. None),
       py_format = format_scalar,
       json_dumps = (\<lambda>v. ''...''),
       slice_error = (\<lambda>v. TypeError (type_name v)) \<rparr>"

section \<open>A session for the examples\<close>

text \<open>The schema of \<^verbatim>\<open>create_page\<close> in tools/page_tools.py, a tool with it, the reply
  that section 8 of the specification quotes, and a session in its initial state with
  that tool, a model that gives that reply, and a Canvas with one course.\<close>

definition create_page_schema :: jval where
  "create_page_schema =
     JObj [(''type'', JStr ''object''),
           (''properties'',
            JObj [(''course_id'', JObj [(''type'', JStr ''integer'')]),
                  (''title'', JObj [(''type'', JStr ''string'')]),
                  (''body'', JObj [(''type'', JStr ''string'')]),
                  (''published'', JObj [(''type'', JStr ''boolean'')]),
                  (''front_page'', JObj [(''type'', JStr ''boolean'')]),
                  (''editing_roles'', JObj [(''type'', JStr ''string'')])]),
           (''required'', JArr [JStr ''course_id'', JStr ''title'', JStr ''body''])]"

definition create_page_tool :: tool where
  "create_page_tool =
     \<lparr> tool_name = ''create_page'',
       tool_description = ''Create a new page in a course.'',
       tool_parameters = create_page_schema,
       tool_function = (\<lambda>kwargs. Inr (JObj [(''url'', JStr ''welcome'')])) \<rparr>"

definition example_reply :: string where
  "example_reply =
     ''Sure! {\"tool\": \"create_page\", \"parameters\": {\"course_id\": 5, \"title\": \"Welcome\"}} Let me know.''"

definition example_session :: session_state where
  "example_session =
     \<lparr> messages = [],
       pending_confirmation = None,
       current_course_id = JNull,
       available_tools = [create_page_tool],
       groq_chat = (\<lambda>ms ts. example_reply),
       canvas_list_courses =
         (\<lambda>kwargs. Inr (JArr [JObj [(''id'', JInt 5), (''name'', JStr ''Algebra'')]])) \<rparr>"

text \<open>The same session with a proposal that waits for its confirmation. The proposal
  names \<^verbatim>\<open>course_id\<close> as a string and carries a key the schema does not declare.\<close>

definition pending_session :: session_state where
  "pending_session =
     example_session
       \<lparr> pending_confirmation :=
           Some (JStr ''create_page'',
                 JObj [(''course_id'', JStr ''5''), (''title'', JStr ''Welcome''),
                       (''colour'', JStr ''red'')]) \<rparr>"

text \<open>The \<^verbatim>\<open>properties\<close> of \<^verbatim>\<open>list_modules\<close> in tools/module_tools.py, the tool that the
  comment of line 310 names.\<close>

definition list_modules_props :: pydict where
  "list_modules_props =
     [(''course_id'', JObj [(''type'', JStr ''integer'')]),
      (''include_items'', JObj [(''type'', JStr ''boolean'')])]"

section \<open>The extractor in the words of the specification\<close>

text \<open>
  Section 4.3 of the specification gives the search order: every index of an opening
  brace from left to right and, for each, every index just after a closing brace from
  right to left, down to just past the opening brace. \<open>candidate_ranges\<close> lists these
  pairs in that order, and \<open>first_accepted\<close> walks the list once and takes the first
  substring that parses to a dict with the keys \<^verbatim>\<open>tool\<close> and \<^verbatim>\<open>parameters\<close>. They follow
  the specification, not the code; the theorem of claim C3 compares them with the
  loops of the code.
\<close>

definition candidate_ranges :: "string \<Rightarrow> (nat \<times> nat) list" where
  "candidate_ranges text =
     concat (map (\<lambda>s. map (\<lambda>e. (s, e))
                    (filter (\<lambda>e. text ! (e - 1) = CHR ''}'') (rev [Suc s ..< Suc (length text)])))
                 (filter (\<lambda>i. text ! i = CHR ''{'') [0 ..< length text]))"

fun first_accepted :: "pylib \<Rightarrow> string \<Rightarrow> (nat \<times> nat) list \<Rightarrow> exn + jval option" where
  "first_accepted L text [] = Inr None"
| "first_accepted L text ((s, e) # rest) =
     (case json_loads L (take (e - s) (drop s text)) of
        JSONDecodeError \<Rightarrow> first_accepted L text rest
      | LoadsRaised x \<Rightarrow> Inl x
      | Loaded obj \<Rightarrow>
          if is_tool_call obj then Inr (Some obj) else first_accepted L text rest)"

text \<open>Two replies for the examples: one that proposes a tool the catalog does not have,
  and one whose first JSON object has a number under \<^verbatim>\<open>tool\<close> and under
  \<^verbatim>\<open>parameters\<close>.\<close>

definition unknown_tool_reply :: string where
  "unknown_tool_reply = ''{\"tool\": \"create_pages\", \"parameters\": {\"title\": \"Welcome\"}}''"

definition ill_typed_reply :: string where
  "ill_typed_reply =
     ''{\"tool\": 5, \"parameters\": 1} {\"tool\": \"create_page\", \"parameters\": {}}''"

text \<open>The example session with a model that proposes the unknown tool, and with a model
  that answers in prose and claims an effect.\<close>

definition unknown_tool_session :: session_state where
  "unknown_tool_session = example_session \<lparr> groq_chat := (\<lambda>ms ts. unknown_tool_reply) \<rparr>"

definition prose_reply :: string where
  "prose_reply = ''You have successfully created 3 courses: Algebra, Biology and Chemistry.''"

definition prose_session :: session_state where
  "prose_session = example_session \<lparr> groq_chat := (\<lambda>ms ts. prose_reply) \<rparr>"

section \<open>Properties of the placeholder guard\<close>

text \<open>\<open>sub in s\<close> holds exactly when \<open>s\<close> splits around \<open>sub\<close>, and a pair of characters
  occurs in \<open>s\<close> exactly when it stands at two neighbouring places. What the theorems
  use of \<^verbatim>\<open>strip\<close> is that it removes a prefix and a suffix made of whitespace only: bytes
  that are ASCII whitespace or above 127. A strip of this kind keeps every \<open></\<close>, and
  leaves alone a text that starts and ends with other ASCII characters.\<close>

lemma py_in_iff: "py_in sub s \<longleftrightarrow> (\<exists>a b. s = a @ sub @ b)"
proof (induction s)
  case Nil
  then show ?case by auto
next
  case (Cons c cs)
  have pre: "take (length sub) (c # cs) = sub \<longleftrightarrow> (\<exists>b. c # cs = sub @ b)"
    by (metis append_eq_conv_conj append_take_drop_id)
  show ?case
  proof
    assume "py_in sub (c # cs)"
    then consider "take (length sub) (c # cs) = sub" | "py_in sub cs" by auto
    then show "\<exists>a b. c # cs = a @ sub @ b"
    proof cases
      case 1
      then obtain b where "c # cs = sub @ b" using pre by blast
      then have "c # cs = [] @ sub @ b" by simp
      then show ?thesis by blast
    next
      case 2
      then obtain a b where "cs = a @ sub @ b" using Cons.IH by blast
      then have "c # cs = (c # a) @ sub @ b" by simp
      then show ?thesis by blast
    qed
  next
    assume "\<exists>a b. c # cs = a @ sub @ b"
    then obtain a b where ab: "c # cs = a @ sub @ b" by blast
    show "py_in sub (c # cs)"
    proof (cases a)
      case Nil
      then have "\<exists>b. c # cs = sub @ b" using ab by auto
      then have "take (length sub) (c # cs) = sub" using pre by blast
      then show ?thesis by simp
    next
      case (Cons x a')
      then have "cs = a' @ sub @ b" using ab by simp
      then show ?thesis using Cons.IH by auto
    qed
  qed
qed

lemma py_in_set: "py_in sub s \<Longrightarrow> set sub \<subseteq> set s"
  using py_in_iff by fastforce

lemma py_in_inside: "py_in sub t \<Longrightarrow> py_in sub (p @ t @ q)"
proof -
  assume "py_in sub t"
  then obtain a b where "t = a @ sub @ b" using py_in_iff by blast
  then have "p @ t @ q = (p @ a) @ sub @ (b @ q)" by simp
  then show ?thesis using py_in_iff by blast
qed

lemma pair_in_iff:
  "py_in [x, y] s \<longleftrightarrow> (\<exists>i. Suc i < length s \<and> s ! i = x \<and> s ! Suc i = y)"
proof
  assume "py_in [x, y] s"
  then obtain a b where s: "s = a @ [x, y] @ b" using py_in_iff by blast
  have "Suc (length a) < length s \<and> s ! length a = x \<and> s ! Suc (length a) = y"
    unfolding s by (simp add: nth_append)
  then show "\<exists>i. Suc i < length s \<and> s ! i = x \<and> s ! Suc i = y" by blast
next
  assume "\<exists>i. Suc i < length s \<and> s ! i = x \<and> s ! Suc i = y"
  then obtain i where i: "Suc i < length s" "s ! i = x" "s ! Suc i = y" by blast
  have "s = take i s @ s ! i # drop (Suc i) s" using i(1) by (simp add: id_take_nth_drop)
  moreover have "drop (Suc i) s = s ! Suc i # drop (Suc (Suc i)) s"
    using i(1) by (simp add: Cons_nth_drop_Suc)
  ultimately have "s = take i s @ [x, y] @ drop (Suc (Suc i)) s" using i(2,3) by simp
  then show "py_in [x, y] s" using py_in_iff by blast
qed

lemma pair_in_middle:
  assumes "py_in [x, y] (p @ t @ q)" "x \<notin> set p" "y \<notin> set q"
  shows "py_in [x, y] t"
proof -
  let ?s = "p @ t @ q"
  obtain i where i: "Suc i < length ?s" "?s ! i = x" "?s ! Suc i = y"
    using assms(1) pair_in_iff by blast
  have lo: "length p \<le> i"
  proof (rule ccontr)
    assume "\<not> length p \<le> i"
    then have "?s ! i = p ! i" "i < length p" by (auto simp: nth_append)
    then show False using i(2) assms(2) by (metis nth_mem)
  qed
  have hi: "Suc i < length p + length t"
  proof (rule ccontr)
    assume n: "\<not> Suc i < length p + length t"
    then have "?s ! Suc i = q ! (Suc i - length p - length t)"
      by (auto simp: nth_append)
    moreover have "Suc i - length p - length t < length q" using i(1) n by auto
    ultimately show False using i(3) assms(3) by (metis nth_mem)
  qed
  have "t ! (i - length p) = x" using i(2) lo hi by (auto simp: nth_append)
  moreover have "t ! Suc (i - length p) = y"
    using i(3) lo hi by (auto simp: nth_append Suc_diff_le)
  moreover have "Suc (i - length p) < length t" using lo hi by auto
  ultimately show ?thesis using pair_in_iff by blast
qed

lemma close_tag_strip:
  assumes "\<forall>s. \<exists>p q. s = p @ str_strip L s @ q
             \<and> (\<forall>c\<in>set (p @ q). ascii_isspace c \<or> (128::nat) \<le> of_char c)"
  shows "py_in ''</'' (str_strip L s) \<longleftrightarrow> py_in ''</'' s"
proof -
  obtain p q where pq: "s = p @ str_strip L s @ q"
      "\<forall>c\<in>set (p @ q). ascii_isspace c \<or> (128::nat) \<le> of_char c"
    using assms by blast
  have w: "\<not> (ascii_isspace (CHR ''<'') \<or> (128::nat) \<le> of_char (CHR ''<''))"
    "\<not> (ascii_isspace (CHR ''/'') \<or> (128::nat) \<le> of_char (CHR ''/''))"
    by (simp_all add: ascii_isspace_def)
  have a: "CHR ''<'' \<notin> set p" using pq(2) w(1) by auto
  have b: "CHR ''/'' \<notin> set q" using pq(2) w(2) by auto
  show ?thesis
  proof
    assume "py_in ''</'' (str_strip L s)"
    then have "py_in ''</'' (p @ str_strip L s @ q)" by (rule py_in_inside)
    then show "py_in ''</'' s" using pq(1) by simp
  next
    assume "py_in ''</'' s"
    then have "py_in [CHR ''<'', CHR ''/''] (p @ str_strip L s @ q)" using pq(1) by simp
    then show "py_in ''</'' (str_strip L s)" using a b pair_in_middle by blast
  qed
qed

lemma strip_id:
  assumes "\<forall>s. \<exists>p q. s = p @ str_strip L s @ q
             \<and> (\<forall>c\<in>set (p @ q). ascii_isspace c \<or> (128::nat) \<le> of_char c)"
    and "s \<noteq> []"
    and "\<not> (ascii_isspace (hd s) \<or> (128::nat) \<le> of_char (hd s))"
    and "\<not> (ascii_isspace (last s) \<or> (128::nat) \<le> of_char (last s))"
  shows "str_strip L s = s"
proof -
  obtain p q where pq: "s = p @ str_strip L s @ q"
      "\<forall>c\<in>set (p @ q). ascii_isspace c \<or> (128::nat) \<le> of_char c"
    using assms(1) by blast
  have "p = []"
  proof (rule ccontr)
    assume "p \<noteq> []"
    then have "hd s = hd p" "hd p \<in> set p" using pq(1) by (metis hd_append2, simp)
    then show False using pq(2) assms(3) by auto
  qed
  moreover have "q = []"
  proof (rule ccontr)
    assume "q \<noteq> []"
    then have "last s = last q" "last q \<in> set q" using pq(1) by (metis append_is_Nil_conv last_appendR, simp)
    then show False using pq(2) assms(4) by auto
  qed
  ultimately show ?thesis using pq(1) by simp
qed

lemma detect_fails_iff:
  "isl (detect_placeholders L args) \<longleftrightarrow>
     (\<exists>k s. (k, JStr s) \<in> set args \<and> (has_marker L s \<or> bare_tag L s))"
proof (induction L args rule: detect_placeholders.induct)
  case (1 L)
  then show ?case by simp
next
  case (2 L key v rest)
  then show ?case by (cases v) auto
qed


lemma bare_tag_upper_token:
  assumes "\<forall>s. \<exists>p q. s = p @ str_strip L s @ q
             \<and> (\<forall>c\<in>set (p @ q). ascii_isspace c \<or> (128::nat) \<le> of_char c)"
    and "body \<noteq> []"
    and "\<forall>c\<in>set body. ((65::nat) \<le> of_char c \<and> of_char c \<le> (90::nat)) \<or> c = CHR ''_''"
  shows "bare_tag L (''<'' @ body @ ''>'')"
proof -
  define s where "s = ''<'' @ body @ ''>''"
  have st: "str_strip L s = s"
    using assms(1) unfolding s_def by (rule strip_id) (auto simp: ascii_isspace_def)
  have "CHR ''/'' \<notin> set s" using assms(3) unfolding s_def by auto
  then have a: "\<not> py_in ''</'' s" using py_in_set[of "''</''" s] by auto
  have b: "startswith s ''<''" unfolding s_def by (simp add: startswith_def)
  have c: "endswith s ''>''" unfolding s_def by (simp add: endswith_def)
  have "bare_tag L s" using a b c by (simp only: bare_tag_def st simp_thms)
  then show ?thesis unfolding s_def .
qed

lemma ascii_strip_sound:
  "\<forall>s. \<exists>p q. s = p @ ascii_strip s @ q
       \<and> (\<forall>c\<in>set (p @ q). ascii_isspace c \<or> (128::nat) \<le> of_char c)"
proof
  fix s
  let ?t = "dropWhile ascii_isspace s"
  let ?p = "takeWhile ascii_isspace s"
  let ?q = "rev (takeWhile ascii_isspace (rev ?t))"
  have 1: "s = ?p @ ?t" by simp
  have "rev ?t = takeWhile ascii_isspace (rev ?t) @ dropWhile ascii_isspace (rev ?t)" by simp
  then have 2: "?t = ascii_strip s @ ?q"
    by (metis ascii_strip_def rev_append rev_rev_ident)
  have 3: "s = ?p @ ascii_strip s @ ?q" using 1 2 by metis
  have 4: "\<forall>c\<in>set (?p @ ?q). ascii_isspace c" by (auto dest: set_takeWhileD)
  show "\<exists>p q. s = p @ ascii_strip s @ q
       \<and> (\<forall>c\<in>set (p @ q). ascii_isspace c \<or> (128::nat) \<le> of_char c)"
    using 3 4 by blast
qed


text \<open>
  Claim C4. For Python's \<^verbatim>\<open>upper\<close>, whatever it is, and a \<^verbatim>\<open>strip\<close> that removes a prefix and
  a suffix of whitespace bytes (ASCII whitespace, or bytes above 127, as all the bytes
  of Python's other whitespace characters are): the guard fails exactly when some
  string-valued argument, upper-cased, contains one of the six markers, or, trimmed,
  starts with \<open><\<close>, ends with \<open>>\<close> and has no \<open></\<close> anywhere. A string \<open><\<close>, then one or more
  of \<open>A\<close> to \<open>Z\<close> and \<open>_\<close>, then \<open>>\<close> always makes it fail, and a string that contains \<open></\<close>
  never meets the bare-tag test.
\<close>

theorem placeholder_guard_fails_iff:
  assumes "\<forall>s. \<exists>p q. s = p @ str_strip L s @ q
             \<and> (\<forall>c\<in>set (p @ q). ascii_isspace c \<or> (128::nat) \<le> of_char c)"
  shows "(isl (detect_placeholders L args) \<longleftrightarrow>
      (\<exists>k s. (k, JStr s) \<in> set args \<and>
         ((\<exists>m \<in> set [''<YOUR_'', ''<HTML_'', ''<INSERT_'', ''<COURSE_'', ''<PAGE_'', ''<MODULE_''].
              py_in m (str_upper L s))
          \<or> (startswith (str_strip L s) ''<'' \<and> endswith (str_strip L s) ''>''
              \<and> \<not> py_in ''</'' s))))
   \<and> (\<forall>k body. body \<noteq> []
          \<and> (\<forall>c\<in>set body. ((65::nat) \<le> of_char c \<and> of_char c \<le> (90::nat)) \<or> c = CHR ''_'')
          \<and> (k, JStr (''<'' @ body @ ''>'')) \<in> set args
        \<longrightarrow> isl (detect_placeholders L args))
   \<and> (\<forall>s. py_in ''</'' s \<longrightarrow> \<not> bare_tag L s)"
proof (intro conjI allI impI)
  show "isl (detect_placeholders L args) \<longleftrightarrow>
      (\<exists>k s. (k, JStr s) \<in> set args \<and>
         ((\<exists>m \<in> set [''<YOUR_'', ''<HTML_'', ''<INSERT_'', ''<COURSE_'', ''<PAGE_'', ''<MODULE_''].
              py_in m (str_upper L s))
          \<or> (startswith (str_strip L s) ''<'' \<and> endswith (str_strip L s) ''>''
              \<and> \<not> py_in ''</'' s)))"
    unfolding detect_fails_iff
    by (simp add: has_marker_def bare_tag_def placeholder_patterns_def close_tag_strip[OF assms])
next
  fix k body
  assume a: "body \<noteq> []
          \<and> (\<forall>c\<in>set body. ((65::nat) \<le> of_char c \<and> of_char c \<le> (90::nat)) \<or> c = CHR ''_'')
          \<and> (k, JStr (''<'' @ body @ ''>'')) \<in> set args"
  then have "bare_tag L (''<'' @ body @ ''>'')" using bare_tag_upper_token[OF assms] by blast
  then show "isl (detect_placeholders L args)" using a detect_fails_iff by blast
next
  fix s assume "py_in ''</'' s"
  then show "\<not> bare_tag L s" by (simp add: bare_tag_def close_tag_strip[OF assms])
qed

theorem placeholder_guard_fails_iff_witness:
  "(\<forall>s. \<exists>p q. s = p @ str_strip example_lib s @ q
         \<and> (\<forall>c\<in>set (p @ q). ascii_isspace c \<or> (128::nat) \<le> of_char c))
   \<and> isl (detect_placeholders example_lib [(''title'', JStr ''Welcome''), (''name'', JStr ''<TOKEN_A>'')])
   \<and> py_in ''</'' ''  <h1>Welcome</h1> '' \<and> \<not> bare_tag example_lib ''  <h1>Welcome</h1> ''
   \<and> \<not> isl (detect_placeholders example_lib [(''body'', JStr ''  <h1>Welcome</h1> '')])
   \<and> isl (detect_placeholders example_lib [(''body'', JStr ''see <insert_text here'')])"
proof -
  let ?args = "[(''title'', JStr ''Welcome''), (''name'', JStr ''<TOKEN_A>'')]"
  have s: "str_strip example_lib = ascii_strip" by (simp add: example_lib_def)
  have u: "str_upper example_lib = ascii_upper" by (simp add: example_lib_def)
  have H: "\<forall>s. \<exists>p q. s = p @ str_strip example_lib s @ q
         \<and> (\<forall>c\<in>set (p @ q). ascii_isspace c \<or> (128::nat) \<le> of_char c)"
    unfolding s by (rule ascii_strip_sound)
  note t = placeholder_guard_fails_iff[OF H, of ?args]
  have "''TOKEN_A'' \<noteq> []
          \<and> (\<forall>c\<in>set ''TOKEN_A''. ((65::nat) \<le> of_char c \<and> of_char c \<le> (90::nat)) \<or> c = CHR ''_'')
          \<and> (''name'', JStr (''<'' @ ''TOKEN_A'' @ ''>'')) \<in> set ?args"
    by simp
  then have 1: "isl (detect_placeholders example_lib ?args)"
    using t by blast
  have 2: "py_in ''</'' ''  <h1>Welcome</h1> ''" by simp
  then have 3: "\<not> bare_tag example_lib ''  <h1>Welcome</h1> ''" using t by blast
  have n1: "\<not> (\<exists>m \<in> set [''<YOUR_'', ''<HTML_'', ''<INSERT_'', ''<COURSE_'', ''<PAGE_'', ''<MODULE_''].
              py_in m (str_upper example_lib ''  <h1>Welcome</h1> ''))"
    unfolding u by code_simp
  have 4: "\<not> isl (detect_placeholders example_lib [(''body'', JStr ''  <h1>Welcome</h1> '')])"
    using placeholder_guard_fails_iff[OF H, of "[(''body'', JStr ''  <h1>Welcome</h1> '')]"] 2 n1
    by (simp del: detect_placeholders.simps)
  have y1: "\<exists>m \<in> set [''<YOUR_'', ''<HTML_'', ''<INSERT_'', ''<COURSE_'', ''<PAGE_'', ''<MODULE_''].
              py_in m (str_upper example_lib ''see <insert_text here'')"
    unfolding u by code_simp
  have 5: "isl (detect_placeholders example_lib [(''body'', JStr ''see <insert_text here'')])"
    using placeholder_guard_fails_iff[OF H, of "[(''body'', JStr ''see <insert_text here'')]"] y1
    by (simp del: detect_placeholders.simps) blast
  show ?thesis using H 1 2 3 4 5 by blast
qed


section \<open>Properties of the normalisation\<close>

text \<open>Keys: the filter leaves declared keys only, the conversion keeps the keys, and
  \<^verbatim>\<open>include_items\<close> does not survive its rewrite.\<close>

lemma keys_filter_args: "set (dict_keys (filter_args e a)) \<subseteq> set e"
  by (auto simp: dict_keys_def filter_args_def)

lemma keys_filter_args_sub: "set (dict_keys (filter_args e a)) \<subseteq> set (dict_keys a)"
  by (auto simp: dict_keys_def filter_args_def)

lemma keys_convert: "dict_keys (convert_argument_types L a p) = dict_keys a"
  by (induction a) (auto simp: dict_keys_def convert_argument_types_def)

lemma keys_pop: "set (dict_keys (dict_pop d k)) = set (dict_keys d) - {k}"
  by (induction d) (auto simp: dict_keys_def dict_pop_def)

lemma keys_overwrite:
  "map fst (map (\<lambda>(k', v'). if k' = k then (k', v) else (k', v')) d) = map fst d"
  by (induction d) auto

lemma keys_set: "set (dict_keys (dict_set d k v)) = insert k (set (dict_keys d))"
proof (cases "dict_has d k")
  case True
  then show ?thesis
    by (simp only: dict_set_def if_True dict_keys_def keys_overwrite)
       (auto simp: dict_has_def dict_keys_def)
next
  case False
  then show ?thesis by (simp add: dict_set_def dict_keys_def)
qed

lemma rewrite_drops_include_items: "\<not> dict_has (rewrite_include_items a) ''include_items''"
  by (auto simp: rewrite_include_items_def Let_def dict_has_def keys_pop keys_set)

lemma normalize_keys: "set (dict_keys (normalize_with L al ctx props args)) \<subseteq> set (dict_keys props)"
  by (simp add: normalize_with_def Let_def keys_filter_args)

lemma normalize_drops_include_items:
  "\<not> dict_has (normalize_with L al ctx props args) ''include_items''"
proof -
  have "set (dict_keys (normalize_with L al ctx props args))
        \<subseteq> set (dict_keys (rewrite_include_items
             (apply_aliases al (dict_keys props)
               (inject_course_id ctx (dict_keys props) args))))"
    unfolding normalize_with_def Let_def by (metis keys_filter_args_sub keys_convert)
  then show ?thesis using rewrite_drops_include_items by (auto simp: dict_has_def)
qed

lemma apply_aliases_declared:
  "set (dict_keys a) \<subseteq> set e \<Longrightarrow> apply_aliases al e a = a"
  by (induction al e a rule: apply_aliases.induct) (auto simp: dict_has_def)

lemma rewrite_absent: "\<not> dict_has a ''include_items'' \<Longrightarrow> rewrite_include_items a = a"
  by (simp add: rewrite_include_items_def)

lemma convert_value_idem: "convert_value L ty (convert_value L ty v) = convert_value L ty v"
  by (cases v) (auto simp: convert_value_def split: option.splits)

lemma filter_args_idem: "filter_args e (filter_args e a) = filter_args e a"
  by (simp add: filter_args_def)

lemma filter_args_declared: "set (dict_keys a) \<subseteq> set e \<Longrightarrow> filter_args e a = a"
  by (induction a) (auto simp: filter_args_def dict_keys_def)

lemma convert_filter_idem:
  "convert_argument_types L (filter_args e (convert_argument_types L a p)) p
     = filter_args e (convert_argument_types L a p)"
  by (induction a)
     (auto simp: convert_argument_types_def filter_args_def convert_value_idem split: if_splits)

lemma inject_skipped:
  "\<not> (truthy ctx \<and> ''course_id'' \<in> set e \<and> \<not> truthy (dict_get a ''course_id''))
   \<Longrightarrow> inject_course_id ctx e a = a"
  by (auto simp: inject_course_id_def)


text \<open>
  Claim C5, as amended. Normalising the output of a normalisation gives the same
  mapping again, for every library, alias table, schema, sidebar course and raw
  arguments, unless the injection fires on the output: a sidebar course is set, the
  schema declares \<^verbatim>\<open>course_id\<close>, and the first pass left a falsy \<^verbatim>\<open>course_id\<close>.
\<close>

theorem normalize_idempotent_without_reinjection:
  assumes "\<not> (truthy ctx \<and> ''course_id'' \<in> set (dict_keys props)
               \<and> \<not> truthy (dict_get (normalize_with L al ctx props args) ''course_id''))"
  shows "normalize_with L al ctx props (normalize_with L al ctx props args)
           = normalize_with L al ctx props args"
proof -
  define out where "out = normalize_with L al ctx props args"
  define e where "e = dict_keys props"
  obtain mid where out_eq: "out = filter_args e (convert_argument_types L mid props)"
    by (simp add: out_def e_def normalize_with_def Let_def)
  have keys: "set (dict_keys out) \<subseteq> set e"
    unfolding out_def e_def by (rule normalize_keys)
  have 1: "inject_course_id ctx e out = out"
    using assms unfolding out_def[symmetric] e_def[symmetric] by (rule inject_skipped)
  have 2: "apply_aliases al e out = out"
    using keys by (rule apply_aliases_declared)
  have 3: "rewrite_include_items out = out"
    unfolding out_def using normalize_drops_include_items by (rule rewrite_absent)
  have 4: "convert_argument_types L out props = out"
    unfolding out_eq by (rule convert_filter_idem)
  have 5: "filter_args e out = out"
    using keys by (rule filter_args_declared)
  have "normalize_with L al ctx props out = out"
    by (simp add: normalize_with_def Let_def e_def[symmetric] 1 2 3 4 5)
  then show ?thesis by (simp add: out_def)
qed

text \<open>
  The claim as stated fails: with the sidebar course 5 and \<^verbatim>\<open>course_id\<close> declared an
  integer, the string \<^verbatim>\<open>"0"\<close> is kept by the injection (it is truthy) and coerced to the
  integer 0; the second pass finds 0 falsy and injects 5.
\<close>

theorem normalize_not_idempotent_counterexample:
  "normalize example_lib (JInt 5) [(''course_id'', JObj [(''type'', JStr ''integer'')])]
     (normalize example_lib (JInt 5) [(''course_id'', JObj [(''type'', JStr ''integer'')])]
        [(''course_id'', JStr ''0'')])
   \<noteq> normalize example_lib (JInt 5) [(''course_id'', JObj [(''type'', JStr ''integer'')])]
        [(''course_id'', JStr ''0'')]"
  by code_simp

theorem normalize_idempotent_without_reinjection_witness:
  "\<not> (truthy (JInt 5) \<and> ''course_id'' \<in> set (dict_keys [(''course_id'', JObj [(''type'', JStr ''integer'')]), (''body'', JObj [(''type'', JStr ''string'')])])
        \<and> \<not> truthy (dict_get (normalize_with example_lib param_aliases (JInt 5)
              [(''course_id'', JObj [(''type'', JStr ''integer'')]), (''body'', JObj [(''type'', JStr ''string'')])]
              [(''content'', JStr ''<p>hi</p>''), (''extra'', JBool True)]) ''course_id''))
   \<and> normalize_with example_lib param_aliases (JInt 5)
        [(''course_id'', JObj [(''type'', JStr ''integer'')]), (''body'', JObj [(''type'', JStr ''string'')])]
        (normalize_with example_lib param_aliases (JInt 5)
           [(''course_id'', JObj [(''type'', JStr ''integer'')]), (''body'', JObj [(''type'', JStr ''string'')])]
           [(''content'', JStr ''<p>hi</p>''), (''extra'', JBool True)])
     = [(''course_id'', JInt 5), (''body'', JStr ''<p>hi</p>'')]"
proof -
  have v: "normalize_with example_lib param_aliases (JInt 5)
        [(''course_id'', JObj [(''type'', JStr ''integer'')]), (''body'', JObj [(''type'', JStr ''string'')])]
           [(''content'', JStr ''<p>hi</p>''), (''extra'', JBool True)]
       = [(''course_id'', JInt 5), (''body'', JStr ''<p>hi</p>'')]"
    by code_simp
  have h: "\<not> (truthy (JInt 5) \<and> ''course_id'' \<in> set (dict_keys [(''course_id'', JObj [(''type'', JStr ''integer'')]), (''body'', JObj [(''type'', JStr ''string'')])])
        \<and> \<not> truthy (dict_get (normalize_with example_lib param_aliases (JInt 5)
              [(''course_id'', JObj [(''type'', JStr ''integer'')]), (''body'', JObj [(''type'', JStr ''string'')])]
              [(''content'', JStr ''<p>hi</p>''), (''extra'', JBool True)]) ''course_id''))"
    by (subst v) (simp add: dict_get_def)
  show ?thesis
    using h normalize_idempotent_without_reinjection[OF h] v by simp
qed

text \<open>
  Claim C8. The code at the inputs the claim is about, under the schema of
  \<^verbatim>\<open>list_modules\<close>, the tool that the comment of line 310 names: with \<^verbatim>\<open>include_items\<close>
  true, the normalised arguments hold neither \<^verbatim>\<open>include_items\<close> nor \<^verbatim>\<open>include\<close> (line 321
  drops the \<^verbatim>\<open>include\<close> that line 315 has just set, since the schema does not declare it);
  with \<^verbatim>\<open>include_items\<close> false, the parameter is removed all the same (line 312 pops it
  before line 313 tests its value); and an \<^verbatim>\<open>include\<close> that was there is replaced, not
  extended (line 315).
\<close>

theorem include_items_lost_for_list_modules:
  "normalize example_lib JNull list_modules_props
     [(''course_id'', JInt 7), (''include_items'', JBool True)]
     = [(''course_id'', JInt 7)]
   \<and> normalize example_lib JNull list_modules_props
     [(''course_id'', JInt 7), (''include_items'', JBool False)]
     = [(''course_id'', JInt 7)]
   \<and> rewrite_include_items
     [(''include'', JArr [JStr ''content_details'']), (''include_items'', JBool True)]
     = [(''include'', JArr [JStr ''items''])]"
  by code_simp

section \<open>Properties of an operator turn\<close>

text \<open>The calls of a confirmed execution, and which branch a turn takes.\<close>

lemma run_tool_calls:
  "snd (run_tool L c t fn a) = []
   \<or> (\<exists>props args. tool_props t = JObj props \<and> a = JObj args
         \<and> detect_placeholders L (normalize L c props args) = Inr ()
         \<and> snd (run_tool L c t fn a) = [(tool_name t, normalize L c props args)])"
  by (auto simp: run_tool_def Let_def split: jval.splits sum.splits)

lemma run_tool_invokes:
  assumes "tool_props t = JObj props" "a = JObj args"
    and "detect_placeholders L (normalize L c props args) = Inr ()"
    and "\<not> (fn = JStr ''update_course'' \<and> dict_has (normalize L c props args) ''event''
            \<and> dict_get (normalize L c props args) ''event'' \<notin> set (map JStr valid_events))"
  shows "snd (run_tool L c t fn a) = [(tool_name t, normalize L c props args)]"
  using assms by (auto simp: run_tool_def Let_def split: sum.splits)

lemma find_and_execute_calls:
  "snd (find_and_execute L c ts fn a) = []
   \<or> (\<exists>t\<in>set ts. \<exists>props args. JStr (tool_name t) = fn \<and> tool_props t = JObj props \<and> a = JObj args
         \<and> detect_placeholders L (normalize L c props args) = Inr ()
         \<and> snd (find_and_execute L c ts fn a) = [(tool_name t, normalize L c props args)])"
proof (induction ts)
  case Nil
  then show ?case by simp
next
  case (Cons t ts)
  show ?case
  proof (cases "JStr (tool_name t) = fn")
    case True
    then have "find_and_execute L c (t # ts) fn a = run_tool L c t fn a" by simp
    then show ?thesis using run_tool_calls[of L c t fn a] True by auto
  next
    case False
    then have "find_and_execute L c (t # ts) fn a = find_and_execute L c ts fn a" by simp
    then show ?thesis using Cons.IH by auto
  qed
qed

lemma find_and_execute_first:
  "find (\<lambda>t. JStr (tool_name t) = fn) ts = Some t
   \<Longrightarrow> find_and_execute L c ts fn a = run_tool L c t fn a"
  by (induction ts) (auto split: if_splits)

lemma find_member:
  "find (\<lambda>t. JStr (tool_name t) = fn) ts = Some t \<Longrightarrow> fn \<in> set (map JStr (map tool_name ts))"
  by (induction ts) (auto split: if_splits)

lemma confirm_turn_pending:
  "pending_confirmation (fst (confirm_turn L st p fn a)) = None"
  by (simp add: confirm_turn_def Let_def split: prod.splits sum.splits)

lemma confirm_turn_calls:
  "snd (confirm_turn L st p fn a) =
     (if fn \<notin> set (map JStr (map tool_name (available_tools st))) then []
      else snd (find_and_execute L (current_course_id st) (available_tools st) fn a))"
  by (auto simp: confirm_turn_def Let_def image_image split: prod.splits sum.splits)

lemma lower_nonempty: "py_lower p = c # cs \<Longrightarrow> p \<noteq> []"
  by (auto simp: py_lower_def)

lemma render_chat_affirm:
  "pending_confirmation st = Some (fn, a) \<Longrightarrow> py_lower p \<in> set affirmations
   \<Longrightarrow> render_chat L st p = confirm_turn L st p fn a"
  by (auto simp: render_chat_def affirmations_def py_lower_def)

lemma render_chat_reject:
  "pending_confirmation st = Some (fn, a) \<Longrightarrow> py_lower p \<in> set rejections
   \<Longrightarrow> render_chat L st p = cancel_turn st p"
  by (auto simp: render_chat_def affirmations_def rejections_def py_lower_def)

lemma render_chat_unclear:
  "pending_confirmation st = Some (fn, a) \<Longrightarrow> py_lower p \<notin> set affirmations
   \<Longrightarrow> py_lower p \<notin> set rejections \<Longrightarrow> render_chat L st p = (st, [])"
  by (auto simp: render_chat_def)

lemma render_chat_idle:
  "pending_confirmation st = None \<Longrightarrow> p \<noteq> [] \<Longrightarrow> render_chat L st p = normal_turn L st p"
  by (auto simp: render_chat_def)

lemma normal_turn_found:
  assumes "fst (parse_tool_call L (groq_chat st (last10 (messages st @ [(''user'', p)])) (available_tools st))) = Some call"
  shows "snd (normal_turn L st p) = []"
    and "pending_confirmation (fst (normal_turn L st p)) = Some call"
  using assms
  by (auto simp: normal_turn_def Let_def list_courses_fallback_def split: prod.splits option.splits)


text \<open>
  Claim C1, as amended. In a session with no pending confirmation, a turn whose reply
  yields a tool call makes no call to the Canvas client and stores that call as the
  pending confirmation. With a confirmation pending, a turn that lower-cases to \<^verbatim>\<open>yes\<close>
  makes at most one call and clears the pending confirmation; it makes exactly one, with
  the normalised arguments, when the first tool of that name has a dict of properties,
  the arguments are a dict, the placeholder guard passes and the event check of
  \<^verbatim>\<open>update_course\<close> does not stop it. A turn that lower-cases to \<^verbatim>\<open>no\<close> makes no call and
  clears the pending confirmation; one that lower-cases to \<^verbatim>\<open>maybe\<close> makes no call and
  leaves the session as it was.
\<close>

theorem confirmation_machine_amended:
  "(pending_confirmation st = None \<and> prompt \<noteq> []
      \<and> fst (parse_tool_call L
            (groq_chat st (last10 (messages st @ [(''user'', prompt)])) (available_tools st)))
          = Some proposed
     \<longrightarrow> snd (render_chat L st prompt) = []
         \<and> pending_confirmation (fst (render_chat L st prompt)) = Some proposed)
   \<and> (pending_confirmation st = Some (fn, a) \<and> py_lower answer = ''yes''
     \<longrightarrow> length (snd (render_chat L st answer)) \<le> 1
         \<and> pending_confirmation (fst (render_chat L st answer)) = None)
   \<and> (pending_confirmation st = Some (fn, a) \<and> py_lower answer = ''yes''
       \<and> find (\<lambda>t. JStr (tool_name t) = fn) (available_tools st) = Some t
       \<and> tool_props t = JObj props \<and> a = JObj args
       \<and> detect_placeholders L (normalize L (current_course_id st) props args) = Inr ()
       \<and> \<not> (fn = JStr ''update_course''
             \<and> dict_has (normalize L (current_course_id st) props args) ''event''
             \<and> dict_get (normalize L (current_course_id st) props args) ''event''
                 \<notin> set (map JStr valid_events))
     \<longrightarrow> snd (render_chat L st answer)
           = [(tool_name t, normalize L (current_course_id st) props args)])
   \<and> (pending_confirmation st = Some (fn, a) \<and> py_lower answer = ''no''
     \<longrightarrow> snd (render_chat L st answer) = []
         \<and> pending_confirmation (fst (render_chat L st answer)) = None)
   \<and> (pending_confirmation st = Some (fn, a) \<and> py_lower answer = ''maybe''
     \<longrightarrow> render_chat L st answer = (st, []))"
proof (intro conjI impI)
  assume h: "pending_confirmation st = None \<and> prompt \<noteq> []
      \<and> fst (parse_tool_call L
            (groq_chat st (last10 (messages st @ [(''user'', prompt)])) (available_tools st)))
          = Some proposed"
  then have r: "render_chat L st prompt = normal_turn L st prompt"
    using render_chat_idle by blast
  show "snd (render_chat L st prompt) = []"
    unfolding r using h normal_turn_found(1) by blast
  show "pending_confirmation (fst (render_chat L st prompt)) = Some proposed"
    unfolding r using h normal_turn_found(2) by blast
next
  assume h: "pending_confirmation st = Some (fn, a) \<and> py_lower answer = ''yes''"
  then have r: "render_chat L st answer = confirm_turn L st answer fn a"
    using render_chat_affirm[of st fn a answer L] by (simp add: affirmations_def)
  show "pending_confirmation (fst (render_chat L st answer)) = None"
    unfolding r by (rule confirm_turn_pending)
  show "length (snd (render_chat L st answer)) \<le> 1"
    unfolding r confirm_turn_calls
    using find_and_execute_calls[of L "current_course_id st" "available_tools st" fn a]
    by auto
next
  assume h: "pending_confirmation st = Some (fn, a) \<and> py_lower answer = ''yes''
       \<and> find (\<lambda>t. JStr (tool_name t) = fn) (available_tools st) = Some t
       \<and> tool_props t = JObj props \<and> a = JObj args
       \<and> detect_placeholders L (normalize L (current_course_id st) props args) = Inr ()
       \<and> \<not> (fn = JStr ''update_course''
             \<and> dict_has (normalize L (current_course_id st) props args) ''event''
             \<and> dict_get (normalize L (current_course_id st) props args) ''event''
                 \<notin> set (map JStr valid_events))"
  then have r: "render_chat L st answer = confirm_turn L st answer fn a"
    using render_chat_affirm[of st fn a answer L] by (simp add: affirmations_def)
  have m: "fn \<in> set (map JStr (map tool_name (available_tools st)))"
    using h find_member by blast
  have f: "find_and_execute L (current_course_id st) (available_tools st) fn a
             = run_tool L (current_course_id st) t fn a"
    using h find_and_execute_first by blast
  have "snd (run_tool L (current_course_id st) t fn a)
          = [(tool_name t, normalize L (current_course_id st) props args)]"
    using h run_tool_invokes[of t props a args L "current_course_id st" fn] by blast
  then show "snd (render_chat L st answer)
           = [(tool_name t, normalize L (current_course_id st) props args)]"
    unfolding r confirm_turn_calls using m f by simp
next
  assume h: "pending_confirmation st = Some (fn, a) \<and> py_lower answer = ''no''"
  then have r: "render_chat L st answer = cancel_turn st answer"
    using render_chat_reject[of st fn a answer L] by (simp add: rejections_def)
  show "snd (render_chat L st answer) = []" unfolding r by (simp add: cancel_turn_def)
  show "pending_confirmation (fst (render_chat L st answer)) = None"
    unfolding r by (simp add: cancel_turn_def)
next
  assume h: "pending_confirmation st = Some (fn, a) \<and> py_lower answer = ''maybe''"
  then show "render_chat L st answer = (st, [])"
    using render_chat_unclear[of st fn a answer L] by (simp add: affirmations_def rejections_def)
qed

text \<open>
  The claim as stated fails: a reply with a well-formed tool call that names a tool the
  catalog does not have is stored as pending, and the turn \<^verbatim>\<open>yes\<close> that follows makes no
  call at all (line 269 rejects the name) and clears it.
\<close>

theorem confirmation_unknown_tool_counterexample:
  "pending_confirmation unknown_tool_session = None
   \<and> fst (parse_tool_call example_lib unknown_tool_reply)
       = Some (JStr ''create_pages'', JObj [(''title'', JStr ''Welcome'')])
   \<and> snd (render_chat example_lib unknown_tool_session ''Add a welcome page'') = []
   \<and> pending_confirmation (fst (render_chat example_lib unknown_tool_session ''Add a welcome page''))
       = Some (JStr ''create_pages'', JObj [(''title'', JStr ''Welcome'')])
   \<and> snd (render_chat example_lib
            (fst (render_chat example_lib unknown_tool_session ''Add a welcome page'')) ''yes'') = []
   \<and> pending_confirmation (fst (render_chat example_lib
            (fst (render_chat example_lib unknown_tool_session ''Add a welcome page'')) ''yes'')) = None"
  by code_simp

theorem confirmation_machine_amended_witness:
  "pending_confirmation example_session = None
   \<and> snd (render_chat example_lib example_session ''Create a welcome page'') = []
   \<and> pending_confirmation (fst (render_chat example_lib example_session ''Create a welcome page''))
       = Some (JStr ''create_page'', JObj [(''course_id'', JInt 5), (''title'', JStr ''Welcome'')])
   \<and> py_lower ''YES'' = ''yes''
   \<and> snd (render_chat example_lib pending_session ''YES'')
       = [(''create_page'', [(''course_id'', JInt 5), (''title'', JStr ''Welcome'')])]
   \<and> pending_confirmation (fst (render_chat example_lib pending_session ''YES'')) = None
   \<and> snd (render_chat example_lib pending_session ''No'') = []
   \<and> pending_confirmation (fst (render_chat example_lib pending_session ''No'')) = None
   \<and> snd (render_chat example_lib pending_session ''Maybe'') = []
   \<and> pending_confirmation (fst (render_chat example_lib pending_session ''Maybe''))
       = pending_confirmation pending_session"
proof -
  let ?fn = "JStr ''create_page''"
  let ?args = "[(''course_id'', JStr ''5''), (''title'', JStr ''Welcome''), (''colour'', JStr ''red'')]"
  let ?props = "[(''course_id'', JObj [(''type'', JStr ''integer'')]),
                  (''title'', JObj [(''type'', JStr ''string'')]),
                  (''body'', JObj [(''type'', JStr ''string'')]),
                  (''published'', JObj [(''type'', JStr ''boolean'')]),
                  (''front_page'', JObj [(''type'', JStr ''boolean'')]),
                  (''editing_roles'', JObj [(''type'', JStr ''string'')])]"
  let ?out = "[(''course_id'', JInt 5), (''title'', JStr ''Welcome'')]"
  have i0: "pending_confirmation example_session = None" by code_simp
  have i1: "''Create a welcome page'' \<noteq> []" by simp
  have i2: "fst (parse_tool_call example_lib
            (groq_chat example_session
               (last10 (messages example_session @ [(''user'', ''Create a welcome page'')]))
               (available_tools example_session)))
          = Some (?fn, JObj ?out)"
    by code_simp
  have p0: "pending_confirmation pending_session = Some (?fn, JObj ?args)" by code_simp
  have y: "py_lower ''YES'' = ''yes''" by code_simp
  have n: "py_lower ''No'' = ''no''" by code_simp
  have m: "py_lower ''Maybe'' = ''maybe''" by code_simp
  have f: "find (\<lambda>t. JStr (tool_name t) = ?fn) (available_tools pending_session) = Some create_page_tool"
    by (simp add: pending_session_def example_session_def create_page_tool_def)
  have tp: "tool_props create_page_tool = JObj ?props" by code_simp
  have c: "current_course_id pending_session = JNull" by code_simp
  have nz: "normalize example_lib JNull ?props ?args = ?out" by code_simp
  have g: "detect_placeholders example_lib (normalize example_lib (current_course_id pending_session) ?props ?args) = Inr ()"
    unfolding c nz by code_simp
  have ev: "\<not> (?fn = JStr ''update_course''
             \<and> dict_has (normalize example_lib (current_course_id pending_session) ?props ?args) ''event''
             \<and> dict_get (normalize example_lib (current_course_id pending_session) ?props ?args) ''event''
                 \<notin> set (map JStr valid_events))"
    by simp
  have tn: "tool_name create_page_tool = ''create_page''" by code_simp
  note A = confirmation_machine_amended[where st=example_session
      and prompt="''Create a welcome page''" and L=example_lib and proposed="(?fn, JObj ?out)"]
  note B = confirmation_machine_amended[where st=pending_session and L=example_lib
      and fn="?fn" and a="JObj ?args" and answer="''YES''" and t=create_page_tool
      and props="?props" and args="?args"]
  note C = confirmation_machine_amended[where st=pending_session and L=example_lib
      and fn="?fn" and a="JObj ?args" and answer="''No''"]
  note D = confirmation_machine_amended[where st=pending_session and L=example_lib
      and fn="?fn" and a="JObj ?args" and answer="''Maybe''"]
  have r1: "snd (render_chat example_lib example_session ''Create a welcome page'') = []
         \<and> pending_confirmation (fst (render_chat example_lib example_session ''Create a welcome page''))
            = Some (?fn, JObj ?out)"
    using A i0 i1 i2 by blast
  have r2: "snd (render_chat example_lib pending_session ''YES'')
       = [(tool_name create_page_tool, normalize example_lib (current_course_id pending_session) ?props ?args)]"
    using B p0 y f tp g ev by blast
  have r3: "pending_confirmation (fst (render_chat example_lib pending_session ''YES'')) = None"
    using B p0 y by blast
  have r4: "snd (render_chat example_lib pending_session ''No'') = []
     \<and> pending_confirmation (fst (render_chat example_lib pending_session ''No'')) = None"
    using C p0 n by blast
  have r5: "render_chat example_lib pending_session ''Maybe'' = (pending_session, [])"
    using D p0 m by blast
  show ?thesis
    using i0 r1 y r2 r3 r4 r5 by (simp add: tn c nz)
qed

text \<open>
  Claim C2. Every call that a turn makes for a pending confirmation is made on an
  affirmation, to a tool of the catalog that carries the proposed name, with the
  normalised arguments, and every key of these arguments is a key of that tool's
  \<^verbatim>\<open>properties\<close>.
\<close>

theorem executor_gets_declared_keys_only:
  assumes "pending_confirmation st = Some (fn, a)"
    and "(name, kwargs) \<in> set (snd (render_chat L st prompt))"
  shows "py_lower prompt \<in> set affirmations
         \<and> (\<exists>t\<in>set (available_tools st). \<exists>props args.
               JStr (tool_name t) = fn \<and> tool_name t = name
               \<and> tool_props t = JObj props \<and> a = JObj args
               \<and> kwargs = normalize L (current_course_id st) props args
               \<and> set (dict_keys kwargs) \<subseteq> set (dict_keys props))"
proof -
  have aff: "py_lower prompt \<in> set affirmations"
  proof (rule ccontr)
    assume n: "py_lower prompt \<notin> set affirmations"
    have "snd (render_chat L st prompt) = []"
    proof (cases "py_lower prompt \<in> set rejections")
      case True
      then show ?thesis using assms(1) render_chat_reject[of st fn a prompt L]
        by (simp add: cancel_turn_def)
    next
      case False
      then show ?thesis using assms(1) n render_chat_unclear[of st fn a prompt L] by simp
    qed
    then show False using assms(2) by simp
  qed
  then have r: "render_chat L st prompt = confirm_turn L st prompt fn a"
    using assms(1) render_chat_affirm by blast
  have mem: "(name, kwargs) \<in> set (snd (find_and_execute L (current_course_id st) (available_tools st) fn a))"
    using assms(2) unfolding r confirm_turn_calls by (auto split: if_splits)
  then obtain t props args where t: "t \<in> set (available_tools st)" "JStr (tool_name t) = fn"
      "tool_props t = JObj props" "a = JObj args"
      "snd (find_and_execute L (current_course_id st) (available_tools st) fn a)
         = [(tool_name t, normalize L (current_course_id st) props args)]"
    using find_and_execute_calls[of L "current_course_id st" "available_tools st" fn a] by auto
  then have k: "name = tool_name t" "kwargs = normalize L (current_course_id st) props args"
    using mem by auto
  have "set (dict_keys kwargs) \<subseteq> set (dict_keys props)"
    unfolding k normalize_def by (rule normalize_keys)
  then show ?thesis using aff t k by blast
qed

theorem executor_gets_declared_keys_only_witness:
  "pending_confirmation pending_session
     = Some (JStr ''create_page'',
             JObj [(''course_id'', JStr ''5''), (''title'', JStr ''Welcome''), (''colour'', JStr ''red'')])
   \<and> (''create_page'', [(''course_id'', JInt 5), (''title'', JStr ''Welcome'')])
       \<in> set (snd (render_chat example_lib pending_session ''yes''))
   \<and> py_lower ''yes'' \<in> set affirmations
   \<and> (\<exists>t\<in>set (available_tools pending_session). \<exists>props args.
         JStr (tool_name t) = JStr ''create_page'' \<and> tool_name t = ''create_page''
         \<and> tool_props t = JObj props
         \<and> JObj [(''course_id'', JStr ''5''), (''title'', JStr ''Welcome''), (''colour'', JStr ''red'')]
             = JObj args
         \<and> [(''course_id'', JInt 5), (''title'', JStr ''Welcome'')]
             = normalize example_lib (current_course_id pending_session) props args
         \<and> set (dict_keys [(''course_id'', JInt 5), (''title'', JStr ''Welcome'')])
             \<subseteq> set (dict_keys props))"
proof -
  have p0: "pending_confirmation pending_session
     = Some (JStr ''create_page'',
             JObj [(''course_id'', JStr ''5''), (''title'', JStr ''Welcome''), (''colour'', JStr ''red'')])"
    by code_simp
  have c: "(''create_page'', [(''course_id'', JInt 5), (''title'', JStr ''Welcome'')])
       \<in> set (snd (render_chat example_lib pending_session ''yes''))"
    by code_simp
  show ?thesis
    using p0 c executor_gets_declared_keys_only[OF p0 c] by blast
qed



lemma normal_turn_fallback:
  assumes "py_in ''list'' (py_lower p)" "py_in ''course'' (py_lower p)"
    and "fst (parse_tool_call L (groq_chat st (last10 (messages st @ [(''user'', p)])) (available_tools st))) = None"
  shows "snd (normal_turn L st p) = [(''list_courses'', fallback_kwargs)]"
    and "messages (fst (normal_turn L st p)) = messages st @ [(''user'', p),
           (''assistant'', fallback_text L (canvas_list_courses st fallback_kwargs))]"
  using assms
  by (auto simp: normal_turn_def Let_def list_courses_fallback_def split: prod.splits option.splits)

text \<open>
  Claim C6. With no confirmation pending, a message whose lower-case form contains
  \<^verbatim>\<open>list\<close> and \<^verbatim>\<open>course\<close>, and a reply that yields no tool call: the turn makes exactly
  one call, \<^verbatim>\<open>list_courses\<close> with \<^verbatim>\<open>enrollment_type\<close> \<^verbatim>\<open>teacher\<close> and \<^verbatim>\<open>enrollment_state\<close>
  \<^verbatim>\<open>active\<close>, and the assistant's message is the rendering of what that call returned or
  raised, in which the reply does not occur.
\<close>

theorem list_courses_fallback_overrides_reply:
  assumes "pending_confirmation st = None"
    and "py_in ''list'' (py_lower prompt)" and "py_in ''course'' (py_lower prompt)"
    and "fst (parse_tool_call L
            (groq_chat st (last10 (messages st @ [(''user'', prompt)])) (available_tools st)))
          = None"
  shows "snd (render_chat L st prompt)
           = [(''list_courses'',
               [(''enrollment_type'', JStr ''teacher''), (''enrollment_state'', JStr ''active'')])]
         \<and> messages (fst (render_chat L st prompt))
           = messages st @ [(''user'', prompt),
               (''assistant'',
                fallback_text L (canvas_list_courses st
                  [(''enrollment_type'', JStr ''teacher''), (''enrollment_state'', JStr ''active'')]))]"
proof -
  have "prompt \<noteq> []" using assms(2) by (auto simp: py_lower_def)
  then have r: "render_chat L st prompt = normal_turn L st prompt"
    using assms(1) render_chat_idle by blast
  show ?thesis
    unfolding r using normal_turn_fallback[OF assms(2,3,4)] by (simp add: fallback_kwargs_def)
qed

theorem list_courses_fallback_overrides_reply_witness:
  "pending_confirmation prose_session = None
   \<and> py_in ''list'' (py_lower ''List my Courses'') \<and> py_in ''course'' (py_lower ''List my Courses'')
   \<and> fst (parse_tool_call example_lib prose_reply) = None
   \<and> snd (render_chat example_lib prose_session ''List my Courses'')
       = [(''list_courses'',
           [(''enrollment_type'', JStr ''teacher''), (''enrollment_state'', JStr ''active'')])]
   \<and> messages (fst (render_chat example_lib prose_session ''List my Courses''))
       = [(''user'', ''List my Courses''),
          (''assistant'', check_mark @ '' Courses:'' @ newline @ newline @ ''- Algebra (ID: 5)'')]"
proof -
  have q0: "pending_confirmation prose_session = None" by code_simp
  have a: "py_in ''list'' (py_lower ''List my Courses'')" by code_simp
  have b: "py_in ''course'' (py_lower ''List my Courses'')" by code_simp
  have q1: "fst (parse_tool_call example_lib
            (groq_chat prose_session (last10 (messages prose_session @ [(''user'', ''List my Courses'')]))
               (available_tools prose_session))) = None"
    by code_simp
  have q2: "fst (parse_tool_call example_lib prose_reply) = None" by code_simp
  have m: "messages prose_session = []" by code_simp
  have t: "fallback_text example_lib (canvas_list_courses prose_session
                  [(''enrollment_type'', JStr ''teacher''), (''enrollment_state'', JStr ''active'')])
           = check_mark @ '' Courses:'' @ newline @ newline @ ''- Algebra (ID: 5)''"
    by code_simp
  show ?thesis
    using q0 a b q2 list_courses_fallback_overrides_reply[OF q0 a b q1]
    by (simp only: m t append_Nil simp_thms)
qed

text \<open>
  Claim C9. The code at the input the claim is about: a confirmation is pending and the
  operator answers \<^verbatim>\<open>maybe\<close>. The pending confirmation stays, and the history stays as it
  was: the branch of lines 403-406 does not append the operator's message, as the
  branches of lines 254 and 386 do.
\<close>

theorem ambiguous_turn_not_recorded:
  "pending_confirmation pending_session \<noteq> None
   \<and> py_lower ''maybe'' \<notin> set affirmations \<and> py_lower ''maybe'' \<notin> set rejections
   \<and> messages (fst (render_chat example_lib pending_session ''maybe'')) = messages pending_session
   \<and> pending_confirmation (fst (render_chat example_lib pending_session ''maybe''))
       = pending_confirmation pending_session
   \<and> (''user'', ''maybe'') \<notin> set (messages (fst (render_chat example_lib pending_session ''maybe'')))"
  by code_simp



section \<open>Properties of the extraction\<close>

text \<open>The two loops of the code walk the candidate ranges of the specification in its
  order.\<close>

lemma tool_call_truthy: "is_tool_call obj \<Longrightarrow> truthy obj"
  by (cases obj) (auto simp: is_tool_call_def dict_has_def dict_keys_def)

lemma first_accepted_append:
  "first_accepted L reply (xs @ ys) =
     (case first_accepted L reply xs of Inr None \<Rightarrow> first_accepted L reply ys | r \<Rightarrow> r)"
  by (induction L reply xs rule: first_accepted.induct) (auto split: loads_result.splits)

lemma scan_ends_flat:
  "scan_ends L reply s ends found =
     (case first_accepted L reply
             (map (\<lambda>e. (s, e)) (filter (\<lambda>e. reply ! (e - 1) = CHR ''}'') ends)) of
        Inr None \<Rightarrow> Inr found | r \<Rightarrow> r)"
  by (induction ends) (auto split: loads_result.splits)

lemma first_accepted_Some: "first_accepted L reply cs = Inr (Some obj) \<Longrightarrow> is_tool_call obj"
  by (induction L reply cs rule: first_accepted.induct) (auto split: loads_result.splits if_splits)

lemma scan_starts_flat:
  "scan_starts L reply starts None =
     first_accepted L reply
       (concat (map (\<lambda>s. map (\<lambda>e. (s, e))
                  (filter (\<lambda>e. reply ! (e - 1) = CHR ''}'') (rev [Suc s ..< Suc (length reply)])))
               starts))"
proof (induction starts)
  case Nil
  then show ?case by simp
next
  case (Cons s starts)
  let ?cs = "map (\<lambda>e. (s, e)) (filter (\<lambda>e. reply ! (e - 1) = CHR ''}'') (rev [Suc s ..< Suc (length reply)]))"
  show ?case
  proof (cases "first_accepted L reply ?cs")
    case (Inl x)
    then show ?thesis
      by (simp add: scan_ends_flat end_indices_def first_accepted_append)
  next
    case (Inr r)
    show ?thesis
    proof (cases r)
      case None
      then show ?thesis using Inr Cons.IH
        by (simp add: scan_ends_flat end_indices_def first_accepted_append found_truthy_def)
    next
      case (Some obj)
      then have "truthy obj" using Inr first_accepted_Some tool_call_truthy by blast
      then show ?thesis using Inr Some
        by (simp add: scan_ends_flat end_indices_def first_accepted_append found_truthy_def)
    qed
  qed
qed

lemma loops_refine_spec:
  "scan_starts L reply (start_indices reply) None = first_accepted L reply (candidate_ranges reply)"
  by (simp add: scan_starts_flat start_indices_def candidate_ranges_def)

lemma subscript_has: "dict_has d k \<Longrightarrow> subscript (JObj d) k = Inr (dict_get d k)"
  by (auto simp: subscript_def dict_get_def dict_has_def dict_keys_def
           dest: weak_map_of_SomeI split: option.splits)

lemma parse_tool_call_spec:
  "fst (parse_tool_call L reply) =
     (if py_in ''{'' reply \<and> py_in ''tool'' reply then
        (case first_accepted L reply (candidate_ranges reply) of
           Inr (Some (JObj d)) \<Rightarrow> Some (dict_get d ''tool'', dict_get d ''parameters'')
         | _ \<Rightarrow> None)
      else None)"
proof (cases "first_accepted L reply (candidate_ranges reply)")
  case (Inl x)
  then show ?thesis by (simp add: parse_tool_call_def loops_refine_spec)
next
  case (Inr r)
  show ?thesis
  proof (cases r)
    case None
    then show ?thesis using Inr by (simp add: parse_tool_call_def loops_refine_spec found_truthy_def)
  next
    case (Some obj)
    then have tc: "is_tool_call obj" using Inr first_accepted_Some by blast
    then obtain d where d: "obj = JObj d" "dict_has d ''tool''" "dict_has d ''parameters''"
      by (cases obj) (auto simp: is_tool_call_def)
    have "truthy obj" using tc by (rule tool_call_truthy)
    then show ?thesis using Inr Some d
      by (simp add: parse_tool_call_def loops_refine_spec found_truthy_def subscript_has)
  qed
qed

lemma no_acceptable_candidate:
  "(\<forall>(s, e)\<in>set cs. \<forall>obj. json_loads L (take (e - s) (drop s reply)) = Loaded obj
        \<longrightarrow> \<not> is_tool_call obj)
   \<Longrightarrow> first_accepted L reply cs \<noteq> Inr (Some x)"
  by (induction L reply cs rule: first_accepted.induct) (auto split: loads_result.splits)

lemma example_candidates:
  "candidate_ranges example_reply = [(6, 81), (6, 80), (44, 81), (44, 80)]"
  by code_simp

lemma example_snippet:
  "take (81 - 6) (drop 6 example_reply) =
     ''{\"tool\": \"create_page\", \"parameters\": {\"course_id\": 5, \"title\": \"Welcome\"}}''"
  by code_simp

lemma example_prefilter: "py_in ''{'' example_reply \<and> py_in ''tool'' example_reply"
  by code_simp

text \<open>
  Claim C3, as amended. The loops of the code return what one pass over the candidate
  ranges returns, in the order of the specification: the first substring that parses to
  a dict with the keys \<^verbatim>\<open>tool\<close> and \<^verbatim>\<open>parameters\<close>, whatever the types of their values
  (an exception of \<^verbatim>\<open>json.loads\<close> other than a decode error ends the scan). A reply with
  an opening brace and the text \<^verbatim>\<open>tool\<close> yields the values under these two keys, any other
  reply yields none. With a \<^verbatim>\<open>json.loads\<close> that reads the object of the example, the
  example reply yields \<^verbatim>\<open>create_page\<close> with \<^verbatim>\<open>course_id\<close> 5 and \<^verbatim>\<open>title\<close> Welcome. A
  reply none of whose candidates parses to such a dict yields none.
\<close>

theorem extraction_scan_order_amended:
  "scan_starts L reply (start_indices reply) None
     = first_accepted L reply (candidate_ranges reply)
   \<and> fst (parse_tool_call L reply) =
       (if py_in ''{'' reply \<and> py_in ''tool'' reply then
          (case first_accepted L reply (candidate_ranges reply) of
             Inr (Some (JObj d)) \<Rightarrow> Some (dict_get d ''tool'', dict_get d ''parameters'')
           | _ \<Rightarrow> None)
        else None)
   \<and> (json_loads L ''{\"tool\": \"create_page\", \"parameters\": {\"course_id\": 5, \"title\": \"Welcome\"}}''
         = Loaded (JObj [(''tool'', JStr ''create_page''),
                         (''parameters'', JObj [(''course_id'', JInt 5), (''title'', JStr ''Welcome'')])])
       \<longrightarrow> fst (parse_tool_call L example_reply)
             = Some (JStr ''create_page'', JObj [(''course_id'', JInt 5), (''title'', JStr ''Welcome'')]))
   \<and> ((\<forall>(s, e)\<in>set (candidate_ranges reply).
          \<forall>obj. json_loads L (take (e - s) (drop s reply)) = Loaded obj \<longrightarrow> \<not> is_tool_call obj)
       \<longrightarrow> fst (parse_tool_call L reply) = None)"
proof (intro conjI impI)
  show "scan_starts L reply (start_indices reply) None
     = first_accepted L reply (candidate_ranges reply)"
    by (rule loops_refine_spec)
  show "fst (parse_tool_call L reply) =
       (if py_in ''{'' reply \<and> py_in ''tool'' reply then
          (case first_accepted L reply (candidate_ranges reply) of
             Inr (Some (JObj d)) \<Rightarrow> Some (dict_get d ''tool'', dict_get d ''parameters'')
           | _ \<Rightarrow> None)
        else None)"
    by (rule parse_tool_call_spec)
next
  assume h: "json_loads L ''{\"tool\": \"create_page\", \"parameters\": {\"course_id\": 5, \"title\": \"Welcome\"}}''
         = Loaded (JObj [(''tool'', JStr ''create_page''),
                         (''parameters'', JObj [(''course_id'', JInt 5), (''title'', JStr ''Welcome'')])])"
  have tc: "is_tool_call (JObj [(''tool'', JStr ''create_page''),
                         (''parameters'', JObj [(''course_id'', JInt 5), (''title'', JStr ''Welcome'')])])"
    by (simp add: is_tool_call_def dict_has_def dict_keys_def)
  have "first_accepted L example_reply (candidate_ranges example_reply)
          = Inr (Some (JObj [(''tool'', JStr ''create_page''),
                         (''parameters'', JObj [(''course_id'', JInt 5), (''title'', JStr ''Welcome'')])]))"
    unfolding example_candidates
    by (simp only: first_accepted.simps example_snippet h loads_result.case tc if_True)
  then show "fst (parse_tool_call L example_reply)
             = Some (JStr ''create_page'', JObj [(''course_id'', JInt 5), (''title'', JStr ''Welcome'')])"
    using example_prefilter by (simp add: parse_tool_call_spec dict_get_def)
next
  assume h: "\<forall>(s, e)\<in>set (candidate_ranges reply).
          \<forall>obj. json_loads L (take (e - s) (drop s reply)) = Loaded obj \<longrightarrow> \<not> is_tool_call obj"
  have "\<And>x. first_accepted L reply (candidate_ranges reply) \<noteq> Inr (Some x)"
    using h by (rule no_acceptable_candidate)
  then show "fst (parse_tool_call L reply) = None"
    by (auto simp: parse_tool_call_spec split: sum.splits option.splits jval.splits)
qed

text \<open>
  The claim as stated fails: the first object of this reply has the number 5 under
  \<^verbatim>\<open>tool\<close> and the number 1 under \<^verbatim>\<open>parameters\<close>, and the object after it is a tool call
  with a string and an object; the code proposes the first.
\<close>

theorem extraction_ill_typed_counterexample:
  "json_loads example_lib (take 28 ill_typed_reply)
     = Loaded (JObj [(''tool'', JInt 5), (''parameters'', JInt 1)])
   \<and> json_loads example_lib (drop 29 ill_typed_reply)
     = Loaded (JObj [(''tool'', JStr ''create_page''), (''parameters'', JObj [])])
   \<and> fst (parse_tool_call example_lib ill_typed_reply) = Some (JInt 5, JInt 1)"
  by code_simp

theorem extraction_scan_order_amended_witness:
  "json_loads example_lib ''{\"tool\": \"create_page\", \"parameters\": {\"course_id\": 5, \"title\": \"Welcome\"}}''
         = Loaded (JObj [(''tool'', JStr ''create_page''),
                         (''parameters'', JObj [(''course_id'', JInt 5), (''title'', JStr ''Welcome'')])])
   \<and> fst (parse_tool_call example_lib example_reply)
         = Some (JStr ''create_page'', JObj [(''course_id'', JInt 5), (''title'', JStr ''Welcome'')])
   \<and> candidate_ranges ''No tool is needed {here}.'' = [(18, 24)]
   \<and> json_loads example_lib (take (24 - 18) (drop 18 ''No tool is needed {here}.'')) = JSONDecodeError
   \<and> fst (parse_tool_call example_lib ''No tool is needed {here}.'') = None"
proof -
  have a: "json_loads example_lib ''{\"tool\": \"create_page\", \"parameters\": {\"course_id\": 5, \"title\": \"Welcome\"}}''
         = Loaded (JObj [(''tool'', JStr ''create_page''),
                         (''parameters'', JObj [(''course_id'', JInt 5), (''title'', JStr ''Welcome'')])])"
    by code_simp
  have b: "candidate_ranges ''No tool is needed {here}.'' = [(18, 24)]" by code_simp
  have c: "json_loads example_lib (take (24 - 18) (drop 18 ''No tool is needed {here}.'')) = JSONDecodeError"
    by code_simp
  have d: "\<forall>(s, e)\<in>set (candidate_ranges ''No tool is needed {here}.'').
          \<forall>obj. json_loads example_lib (take (e - s) (drop s ''No tool is needed {here}.'')) = Loaded obj
             \<longrightarrow> \<not> is_tool_call obj"
    unfolding b using c by simp
  note t1 = extraction_scan_order_amended[of example_lib example_reply]
  note t2 = extraction_scan_order_amended[of example_lib "''No tool is needed {here}.''"]
  show ?thesis using a b c d t1 t2 by blast
qed

end
